theory Spec2Isabelle
  imports Main
begin

section \<open>JavaScript values and strings\<close>

text \<open>
  The program is one JavaScript module, \<^verbatim>\<open>index.js\<close>. Values that come from outside it
  (parsed JSON bodies, caught errors, optional arguments) are dynamically typed, so they
  are modelled by one datatype of JSON-shaped values.

  \<^item> A JavaScript string is the list of its UTF-16 code units, each a natural number
    below 65536. \<open>str\<close> turns a literal of the program into such a list.
  \<^item> A number is given by the characters that \<^verbatim>\<open>String\<close> prints for it, which determine
    it up to the sign of zero: \<open>JNum ''401''\<close>, \<open>JNum ''0.5''\<close>, \<open>JNum ''1e+21''\<close>.
  \<^item> \<open>JObj kvs\<close> lists the own properties of an object, with distinct keys, in the order
    in which \<^verbatim>\<open>Object.values\<close> enumerates them.
  \<^item> What the user types and what the environment holds (the lines of the terminal, the
    email and the token) are strings of code units below 256, of type \<open>string\<close>: the
    character with code \<open>n\<close> stands for the code unit \<open>n\<close>.
\<close>

type_synonym jstring = "nat list"

definition str :: "string \<Rightarrow> jstring" where
  "str s = map of_char s"

datatype jsval =
    JUndefined
  | JNull
  | JBool bool
  | JNum string
  | JStr jstring
  | JArr "jsval list"
  | JObj "(string \<times> jsval) list"

text \<open>ToBoolean: what \<^verbatim>\<open>if (v)\<close>, \<^verbatim>\<open>!v\<close>, \<^verbatim>\<open>&&\<close> and \<^verbatim>\<open>||\<close> test.\<close>

fun truthy :: "jsval \<Rightarrow> bool" where
  "truthy JUndefined = False"
| "truthy JNull = False"
| "truthy (JBool b) = b"
| "truthy (JNum n) = (n \<noteq> ''0'' \<and> n \<noteq> ''NaN'')"
| "truthy (JStr s) = (s \<noteq> [])"
| "truthy (JArr xs) = True"
| "truthy (JObj kvs) = True"

fun nullish :: "jsval \<Rightarrow> bool" where
  "nullish JUndefined = True"
| "nullish JNull = True"
| "nullish v = False"

text \<open>Decimal notation of a natural number and of an integer.\<close>

definition digit_char :: "nat \<Rightarrow> char" where
  "digit_char d = char_of (of_char CHR ''0'' + d)"

fun show_nat :: "nat \<Rightarrow> string" where
  "show_nat n = (if n < 10 then [digit_char n] else show_nat (n div 10) @ [digit_char (n mod 10)])"

declare show_nat.simps [simp del]

definition show_int :: "int \<Rightarrow> string" where
  "show_int i = (if i < 0 then CHR ''-'' # show_nat (nat (- i)) else show_nat (nat i))"

text \<open>
  \<^verbatim>\<open>v.k\<close> on a value that is neither \<^verbatim>\<open>null\<close> nor \<^verbatim>\<open>undefined\<close>. Only the property names
  the program reads matter: none of them is inherited from a prototype, except
  \<^verbatim>\<open>length\<close> of arrays and strings.
\<close>

fun get :: "jsval \<Rightarrow> string \<Rightarrow> jsval" where
  "get (JObj kvs) k = (case map_of kvs k of None \<Rightarrow> JUndefined | Some v \<Rightarrow> v)"
| "get (JArr xs) k = (if k = ''length'' then JNum (show_nat (length xs)) else JUndefined)"
| "get (JStr s) k = (if k = ''length'' then JNum (show_nat (length s)) else JUndefined)"
| "get v k = JUndefined"

text \<open>\<^verbatim>\<open>v?.k\<close>: \<^verbatim>\<open>undefined\<close> when \<open>v\<close> is \<^verbatim>\<open>null\<close> or \<^verbatim>\<open>undefined\<close>.\<close>

definition opt_get :: "jsval \<Rightarrow> string \<Rightarrow> jsval" where
  "opt_get v k = (if nullish v then JUndefined else get v k)"

text \<open>\<^verbatim>\<open>v?.[0]\<close>.\<close>

fun opt_first :: "jsval \<Rightarrow> jsval" where
  "opt_first (JArr xs) = (case xs of [] \<Rightarrow> JUndefined | x # _ \<Rightarrow> x)"
| "opt_first (JStr s) = (case s of [] \<Rightarrow> JUndefined | c # _ \<Rightarrow> JStr [c])"
| "opt_first (JObj kvs) = (case map_of kvs ''0'' of None \<Rightarrow> JUndefined | Some v \<Rightarrow> v)"
| "opt_first v = JUndefined"

text \<open>\<^verbatim>\<open>Object.values(v)\<close> for a value that is neither \<^verbatim>\<open>null\<close> nor \<^verbatim>\<open>undefined\<close>.\<close>

fun object_values :: "jsval \<Rightarrow> jsval list" where
  "object_values (JObj kvs) = map snd kvs"
| "object_values (JArr xs) = xs"
| "object_values (JStr s) = map (\<lambda>c. JStr [c]) s"
| "object_values v = []"

section \<open>Outcomes\<close>

text \<open>
  An evaluation either returns a value, throws, or never continues: a prompt waits for a
  line that the user never types. The exceptions this program can raise are
  \<^verbatim>\<open>TypeError\<close>s (a property read on \<^verbatim>\<open>null\<close> or \<^verbatim>\<open>undefined\<close>, a call of something that is
  not a function, a conversion to a string of an object that has no usable \<^verbatim>\<open>toString\<close>)
  and the \<^verbatim>\<open>URIError\<close> of \<^verbatim>\<open>encodeURIComponent\<close>. Console output has no effect on any value
  or state and is left out; the expressions it prints are evaluated, since they can
  throw.
\<close>

datatype js_exception = TypeError | URIError

datatype 'a outcome = Return 'a | Throw js_exception | Hang

fun obind :: "'a outcome \<Rightarrow> ('a \<Rightarrow> 'b outcome) \<Rightarrow> 'b outcome" where
  "obind (Return x) f = f x"
| "obind (Throw e) f = Throw e"
| "obind Hang f = Hang"

text \<open>The results of a list of evaluations made in order, up to the first that throws.\<close>

fun sequence :: "'a outcome list \<Rightarrow> 'a list outcome" where
  "sequence [] = Return []"
| "sequence (r # rs) = obind r (\<lambda>x. obind (sequence rs) (\<lambda>xs. Return (x # xs)))"

text \<open>\<^verbatim>\<open>xs.join(sep)\<close> on strings already converted.\<close>

fun join :: "'a list \<Rightarrow> 'a list list \<Rightarrow> 'a list" where
  "join sep [] = []"
| "join sep [x] = x"
| "join sep (x # y # ys) = x @ sep @ join sep (y # ys)"

text \<open>
  ToString, as a template literal \<^verbatim>\<open>`${v}`\<close> and \<^verbatim>\<open>Array.prototype.join\<close> apply it. An
  object of parsed JSON prints as \<^verbatim>\<open>[object Object]\<close> through the inherited \<^verbatim>\<open>toString\<close>;
  when it has an own property named \<^verbatim>\<open>toString\<close>, that property is not a function and the
  conversion throws. An array prints its elements joined by commas. \<open>join_elem\<close> is the
  element conversion of \<^verbatim>\<open>join\<close>, which prints \<^verbatim>\<open>null\<close> and \<^verbatim>\<open>undefined\<close> as the empty
  string.
\<close>

fun toString :: "jsval \<Rightarrow> jstring outcome"
  and join_elem :: "jsval \<Rightarrow> jstring outcome" where
  "toString JUndefined = Return (str ''undefined'')"
| "toString JNull = Return (str ''null'')"
| "toString (JBool b) = Return (if b then str ''true'' else str ''false'')"
| "toString (JNum n) = Return (str n)"
| "toString (JStr s) = Return s"
| "toString (JArr xs) =
     obind (sequence (map join_elem xs)) (\<lambda>ss. Return (join (str '','') ss))"
| "toString (JObj kvs) =
     (if map_of kvs ''toString'' = None then Return (str ''[object Object]'')
      else Throw TypeError)"
| "join_elem v = (if nullish v then Return [] else toString v)"

text \<open>\<^verbatim>\<open>xs.join(sep)\<close> on the elements of an array.\<close>

definition array_join :: "jstring \<Rightarrow> jsval list \<Rightarrow> jstring outcome" where
  "array_join sep xs = obind (sequence (map join_elem xs)) (\<lambda>ss. Return (join sep ss))"

text \<open>What a template literal does with a value it embeds, when only the effect matters.\<close>

definition interpolate :: "jsval \<Rightarrow> unit outcome" where
  "interpolate v = obind (toString v) (\<lambda>_. Return ())"

text \<open>\<^verbatim>\<open>v.k\<close>, which throws on \<^verbatim>\<open>null\<close> and \<^verbatim>\<open>undefined\<close>.\<close>

definition member :: "jsval \<Rightarrow> string \<Rightarrow> jsval outcome" where
  "member v k = (if nullish v then Throw TypeError else Return (get v k))"

text \<open>\<^verbatim>\<open>xs.forEach(f)\<close> on the elements of an array: the first exception ends the loop.\<close>

fun forEach :: "'a list \<Rightarrow> ('a \<Rightarrow> unit outcome) \<Rightarrow> unit outcome" where
  "forEach [] f = Return ()"
| "forEach (x # xs) f = obind (f x) (\<lambda>_. forEach xs f)"

section \<open>String functions\<close>

text \<open>
  White space and line terminators: what \<^verbatim>\<open>trim\<close> strips and what \<^verbatim>\<open>parseInt\<close> skips at the
  start. Below 256 these are the code units 9 to 13, 32 and 160.
\<close>

definition is_space_unit :: "nat \<Rightarrow> bool" where
  "is_space_unit n =
     (n \<in> {9, 10, 11, 12, 13, 32, 160, 5760, 8232, 8233, 8239, 8287, 12288, 65279}
      \<or> (8192 \<le> n \<and> n \<le> 8202))"

definition trim_units :: "jstring \<Rightarrow> jstring" where
  "trim_units s = rev (dropWhile is_space_unit (rev (dropWhile is_space_unit s)))"

definition is_space :: "char \<Rightarrow> bool" where
  "is_space c = is_space_unit (of_char c)"

text \<open>\<^verbatim>\<open>s.trim()\<close> on a typed line.\<close>

definition trim :: "string \<Rightarrow> string" where
  "trim s = rev (dropWhile is_space (rev (dropWhile is_space s)))"

text \<open>\<^verbatim>\<open>v.trim()\<close> on a value: only strings have the function.\<close>

fun js_trim :: "jsval \<Rightarrow> jstring outcome" where
  "js_trim (JStr s) = Return (trim_units s)"
| "js_trim v = Throw TypeError"

text \<open>
  \<^verbatim>\<open>s.toLowerCase()\<close> on a typed line: the capital letters below 256 are A to Z and U+00C0
  to U+00DE without the multiplication sign U+00D7; each is 32 below its small letter.
\<close>

definition lower_char :: "char \<Rightarrow> char" where
  "lower_char c =
     (let n = of_char c :: nat
      in if (65 \<le> n \<and> n \<le> 90) \<or> (192 \<le> n \<and> n \<le> 222 \<and> n \<noteq> 215)
         then char_of (n + 32) else c)"

definition toLowerCase :: "string \<Rightarrow> string" where
  "toLowerCase s = map lower_char s"

text \<open>
  \<^verbatim>\<open>parseInt(s)\<close> on a typed line, with no radix: skip leading white space, read a sign,
  switch to radix 16 after \<^verbatim>\<open>0x\<close> or \<^verbatim>\<open>0X\<close>, read the longest run of digits and ignore
  what follows. \<open>None\<close> is \<^verbatim>\<open>NaN\<close>. The result is kept exact; the program only subtracts
  one from it and compares it with zero and with an array length, and rounding to a
  double changes neither comparison.
\<close>

definition digit_value :: "char \<Rightarrow> nat option" where
  "digit_value c =
     (let n = of_char c :: nat
      in if 48 \<le> n \<and> n \<le> 57 then Some (n - 48)
         else if 97 \<le> n \<and> n \<le> 102 then Some (n - 87)
         else if 65 \<le> n \<and> n \<le> 70 then Some (n - 55)
         else None)"

definition is_digit :: "nat \<Rightarrow> char \<Rightarrow> bool" where
  "is_digit r c = (case digit_value c of None \<Rightarrow> False | Some d \<Rightarrow> d < r)"

definition digits_value :: "nat \<Rightarrow> string \<Rightarrow> nat" where
  "digits_value r z =
     foldl (\<lambda>a c. a * r + (case digit_value c of None \<Rightarrow> 0 | Some d \<Rightarrow> d)) 0 z"

definition parseInt :: "string \<Rightarrow> int option" where
  "parseInt line =
     (let s = dropWhile is_space line;
          sign = (if s \<noteq> [] \<and> hd s = CHR ''-'' then - 1 else 1 :: int);
          s1 = (if s \<noteq> [] \<and> (hd s = CHR ''+'' \<or> hd s = CHR ''-'') then tl s else s);
          hex = (take 2 s1 = ''0x'' \<or> take 2 s1 = ''0X'');
          r = (if hex then 16 else 10);
          s2 = (if hex then drop 2 s1 else s1);
          z = takeWhile (is_digit r) s2
      in if z = [] then None else Some (sign * int (digits_value r z)))"

text \<open>\<^verbatim>\<open>s.includes(c)\<close> and \<^verbatim>\<open>s.split(c)\<close> for a one-character separator.\<close>

definition str_includes :: "string \<Rightarrow> char \<Rightarrow> bool" where
  "str_includes s c = (c \<in> set s)"

fun split :: "string \<Rightarrow> char \<Rightarrow> string list" where
  "split [] c = [[]]"
| "split (x # xs) c =
     (if x = c then [] # split xs c
      else (case split xs c of [] \<Rightarrow> [[x]] | p # ps \<Rightarrow> (x # p) # ps))"

text \<open>
  \<^verbatim>\<open>encodeURIComponent(s)\<close>: letters, digits and the marks \<^verbatim>\<open>- _ . ! ~ * ' ( )\<close> stay; every
  other character is written as the percent-escaped bytes of its UTF-8 encoding. A
  character is one code unit, or a high surrogate (55296 to 56319) followed by a low
  surrogate (56320 to 57343); a surrogate that is not part of such a pair makes the
  function throw a \<^verbatim>\<open>URIError\<close>.
\<close>

definition unreserved :: "nat \<Rightarrow> bool" where
  "unreserved n =
     ((65 \<le> n \<and> n \<le> 90) \<or> (97 \<le> n \<and> n \<le> 122) \<or> (48 \<le> n \<and> n \<le> 57)
      \<or> n \<in> set (str ''-_.!~*'()''))"

definition percent :: "nat \<Rightarrow> jstring" where
  "percent b =
     str [CHR ''%'', ''0123456789ABCDEF'' ! (b div 16), ''0123456789ABCDEF'' ! (b mod 16)]"

definition utf8 :: "nat \<Rightarrow> nat list" where
  "utf8 cp =
     (if cp < 128 then [cp]
      else if cp < 2048 then [192 + cp div 64, 128 + cp mod 64]
      else if cp < 65536 then [224 + cp div 4096, 128 + cp div 64 mod 64, 128 + cp mod 64]
      else [240 + cp div 262144, 128 + cp div 4096 mod 64, 128 + cp div 64 mod 64,
            128 + cp mod 64])"

definition escape :: "nat \<Rightarrow> jstring" where
  "escape cp = concat (map percent (utf8 cp))"

fun encodeURIComponent :: "jstring \<Rightarrow> jstring outcome" where
  "encodeURIComponent [] = Return []"
| "encodeURIComponent (c # cs) =
     (if unreserved c then obind (encodeURIComponent cs) (\<lambda>r. Return (c # r))
      else if c < 55296 \<or> 57343 < c
      then obind (encodeURIComponent cs) (\<lambda>r. Return (escape c @ r))
      else if 56320 \<le> c then Throw URIError
      else (case cs of
              [] \<Rightarrow> Throw URIError
            | d # ds \<Rightarrow>
                if 56320 \<le> d \<and> d \<le> 57343
                then obind (encodeURIComponent ds) (\<lambda>r.
                       Return (escape (65536 + (c - 55296) * 1024 + (d - 56320)) @ r))
                else Throw URIError))"

section \<open>Credential session\<close>

text \<open>
  The three module-level variables \<^verbatim>\<open>baseURL\<close>, \<^verbatim>\<open>email\<close>, \<^verbatim>\<open>apiToken\<close>, together with what
  the program does to the outside: the requests handed to the HTTP transport so far
  (oldest first) and the lines the user will still type at the prompt.
\<close>

record config =
  url :: jstring
  http_method :: jsval
  username :: jstring
  password :: jstring
  headers :: "(string \<times> string) list"
  data :: jsval

record world =
  baseURL :: string
  email :: string
  apiToken :: string
  calls :: "config list"
  stdin :: "string list"

definition initial :: "string list \<Rightarrow> world" where
  "initial lines = \<lparr>baseURL = [], email = [], apiToken = [], calls = [], stdin = lines\<rparr>"

definition generateBaseURLFromEmail :: "string \<Rightarrow> string" where
  "generateBaseURLFromEmail e =
     (if e = [] \<or> \<not> str_includes e CHR ''@'' then []
      else (let domain = hd (split e CHR ''@'')
            in ''https://'' @ domain @ ''.atlassian.net''))"

definition setCredentials :: "string \<Rightarrow> string \<Rightarrow> world \<Rightarrow> world" where
  "setCredentials jiraEmail jiraToken w =
     w\<lparr>email := jiraEmail, apiToken := jiraToken,
       baseURL := generateBaseURLFromEmail jiraEmail\<rparr>"

section \<open>Asynchronous functions\<close>

type_synonym 'a prog = "world \<Rightarrow> 'a outcome \<times> world"

definition ret :: "'a \<Rightarrow> 'a prog" where
  "ret x w = (Return x, w)"

definition lift :: "'a outcome \<Rightarrow> 'a prog" where
  "lift r w = (r, w)"

definition bind :: "'a prog \<Rightarrow> ('a \<Rightarrow> 'b prog) \<Rightarrow> 'b prog" where
  "bind m f w =
     (case m w of
        (Return x, w') \<Rightarrow> f x w'
      | (Throw e, w') \<Rightarrow> (Throw e, w')
      | (Hang, w') \<Rightarrow> (Hang, w'))"

text \<open>\<^verbatim>\<open>try { m } catch (error) { h }\<close>.\<close>

definition try_catch :: "'a prog \<Rightarrow> 'a prog \<Rightarrow> 'a prog" where
  "try_catch m h w =
     (case m w of
        (Throw e, w') \<Rightarrow> h w'
      | r \<Rightarrow> r)"

text \<open>\<^verbatim>\<open>await question(prompt)\<close>: the next line typed, if there is one.\<close>

definition question :: "string prog" where
  "question w =
     (case stdin w of
        [] \<Rightarrow> (Hang, w)
      | l # ls \<Rightarrow> (Return l, w\<lparr>stdin := ls\<rparr>))"

section \<open>Result normalizer\<close>

text \<open>The two shapes \<^verbatim>\<open>{success: true, data}\<close> and \<^verbatim>\<open>{success: false, error}\<close>.\<close>

datatype result = Success jsval | Failure jsval

text \<open>
  What \<^verbatim>\<open>axios\<close> rejects with: the two properties the program reads, \<^verbatim>\<open>undefined\<close> when
  absent. \<open>response\<close> is the object \<^verbatim>\<open>{status, data, ...}\<close> of a reply outside 2xx.
\<close>

record js_error =
  response :: jsval
  message :: jsval

text \<open>
  The HTTP transport is outside the program. It answers a request, possibly depending on
  the requests made before, by rejecting with an error (\<open>Inl\<close>) or by resolving with a
  response whose \<^verbatim>\<open>data\<close> is given (\<open>Inr\<close>).
\<close>

type_synonym transport = "config list \<Rightarrow> config \<Rightarrow> js_error + jsval"

text \<open>
  \<open>formatJiraError\<close> returns the first error message as it is; it joins the values of
  \<^verbatim>\<open>errors\<close>, which converts each of them to a string and can throw.
\<close>

definition formatJiraError :: "js_error \<Rightarrow> jsval outcome" where
  "formatJiraError error =
     (if truthy (opt_first (opt_get (opt_get (response error) ''data'') ''errorMessages''))
      then Return (opt_first (opt_get (opt_get (response error) ''data'') ''errorMessages''))
      else if truthy (opt_get (opt_get (response error) ''data'') ''errors'')
      then (let errors = object_values (opt_get (opt_get (response error) ''data'') ''errors'')
            in obind (array_join (str '', '') errors) (\<lambda>joined. Return (JStr joined)))
      else if truthy (response error) \<and> get (response error) ''status'' = JNum ''401''
      then Return (JStr (str ''Authentication failed. Please check your email and API token.''))
      else if truthy (response error) \<and> get (response error) ''status'' = JNum ''403''
      then Return (JStr (str ''Access denied. You may not have permission for this action.''))
      else if truthy (response error) \<and> get (response error) ''status'' = JNum ''404''
      then Return (JStr (str ''Resource not found. Please check the issue key or project key.''))
      else if truthy (message error)
      then Return (message error)
      else Return (JStr (str ''Unknown error occurred'')))"

text \<open>The \<^verbatim>\<open>options\<close> argument; an absent property is \<^verbatim>\<open>undefined\<close>.\<close>

record options =
  opt_method :: jsval
  opt_body :: jsval

definition no_options :: options where
  "no_options = \<lparr>opt_method = JUndefined, opt_body = JUndefined\<rparr>"

text \<open>The request object that \<^verbatim>\<open>makeJiraRequest\<close> builds before it calls the transport.\<close>

definition request_config :: "world \<Rightarrow> jstring \<Rightarrow> options \<Rightarrow> config" where
  "request_config w path opts =
     (let meth = (if truthy (opt_method opts) then opt_method opts else JStr (str ''GET''));
          config = \<lparr>url = str (baseURL w) @ str ''/rest/api/3'' @ path,
                    http_method = meth,
                    username = str (email w),
                    password = str (apiToken w),
                    headers = [(''Accept'', ''application/json'')],
                    data = JUndefined\<rparr>
      in if truthy (opt_body opts)
            \<and> (meth = JStr (str ''POST'') \<or> meth = JStr (str ''PUT''))
         then config\<lparr>data := opt_body opts,
                headers := headers config @ [(''Content-Type'', ''application/json'')]\<rparr>
         else config)"

text \<open>
  The request is made once. An error that the transport rejects with is formatted inside
  the \<^verbatim>\<open>catch\<close> block, so an exception of the formatting leaves \<open>makeJiraRequest\<close>.
\<close>

definition makeJiraRequest :: "transport \<Rightarrow> jstring \<Rightarrow> options \<Rightarrow> result prog" where
  "makeJiraRequest tr path opts w =
     (let config = request_config w path opts;
          w' = w\<lparr>calls := calls w @ [config]\<rparr>
      in case tr (calls w) config of
           Inr response_data \<Rightarrow>
             (if http_method config = JStr (str ''DELETE'') then (Return (Success JNull), w')
              else (Return (Success response_data), w'))
         | Inl error \<Rightarrow>
             (obind (formatJiraError error) (\<lambda>formatted. Return (Failure formatted)), w'))"

section \<open>API operations\<close>

definition getCurrentUser :: "transport \<Rightarrow> result prog" where
  "getCurrentUser tr = makeJiraRequest tr (str ''/myself'') no_options"

definition getProjectsList :: "transport \<Rightarrow> result prog" where
  "getProjectsList tr = makeJiraRequest tr (str ''/project'') no_options"

definition getProject :: "transport \<Rightarrow> jsval \<Rightarrow> result prog" where
  "getProject tr projectKey =
     (if \<not> truthy projectKey then ret (Failure (JStr (str ''Project key is required'')))
      else bind (lift (js_trim projectKey)) (\<lambda>trimmed.
        if trimmed = [] then ret (Failure (JStr (str ''Project key is required'')))
        else makeJiraRequest tr (str ''/project/'' @ trimmed) no_options))"

text \<open>A default parameter \<^verbatim>\<open>p = d\<close> takes \<open>d\<close> when the argument is \<^verbatim>\<open>undefined\<close>.\<close>

definition default_param :: "jsval \<Rightarrow> jsval \<Rightarrow> jsval" where
  "default_param v d = (if v = JUndefined then d else v)"

definition getIssuesList :: "transport \<Rightarrow> jsval \<Rightarrow> jsval \<Rightarrow> result prog" where
  "getIssuesList tr projectKey maxResults_arg =
     (let maxResults = default_param maxResults_arg (JNum ''50'')
      in if \<not> truthy projectKey then ret (Failure (JStr (str ''Project key is required'')))
         else bind (lift (js_trim projectKey)) (\<lambda>trimmed.
           if trimmed = [] then ret (Failure (JStr (str ''Project key is required'')))
           else (let jql = str ''project = '' @ trimmed @ str '' ORDER BY created ASC''
                 in bind (lift (encodeURIComponent jql)) (\<lambda>encoded.
                    bind (lift (toString maxResults)) (\<lambda>maxResults_text.
                      makeJiraRequest tr
                        (str ''/search?jql='' @ encoded
                           @ str ''&maxResults='' @ maxResults_text)
                        no_options)))))"

definition getIssue :: "transport \<Rightarrow> jsval \<Rightarrow> result prog" where
  "getIssue tr issueKey =
     (if \<not> truthy issueKey
      then ret (Failure (JStr (str ''Issue key is required (e.g., BTS-1)'')))
      else bind (lift (js_trim issueKey)) (\<lambda>trimmed.
        if trimmed = []
        then ret (Failure (JStr (str ''Issue key is required (e.g., BTS-1)'')))
        else makeJiraRequest tr (str ''/issue/'' @ trimmed) no_options))"

definition formatDescriptionForJira :: "jsval \<Rightarrow> jsval outcome" where
  "formatDescriptionForJira description =
     (if \<not> truthy description then Return JNull
      else obind (js_trim description) (\<lambda>trimmed.
        if trimmed = [] then Return JNull
        else Return (JObj
          [(''type'', JStr (str ''doc'')),
           (''version'', JNum ''1''),
           (''content'', JArr [JObj
              [(''type'', JStr (str ''paragraph'')),
               (''content'', JArr [JObj
                  [(''type'', JStr (str ''text'')),
                   (''text'', JStr trimmed)]])]])])))"

text \<open>The apostrophe, for the string literals that need one at their end.\<close>

definition apostrophe :: string where
  "apostrophe = [CHR 0x27]"

text \<open>
  The message of a failed project check is a template literal: it converts the project
  key and the error of the check to strings.
\<close>

definition createIssue ::
  "transport \<Rightarrow> jsval \<Rightarrow> jsval \<Rightarrow> jsval \<Rightarrow> jsval \<Rightarrow> result prog" where
  "createIssue tr projectKey summary description issueType_arg =
     (let issueType = default_param issueType_arg (JStr (str ''Task''))
      in if \<not> truthy projectKey \<or> \<not> truthy summary
         then ret (Failure (JStr (str ''Project key and summary are required'')))
         else bind (getProject tr projectKey) (\<lambda>projectCheck.
           case projectCheck of
             Failure error \<Rightarrow>
               bind (lift (toString projectKey)) (\<lambda>key_text.
               bind (lift (toString error)) (\<lambda>error_text.
                 ret (Failure (JStr (str (''Project '' @ apostrophe) @ key_text
                    @ str (apostrophe @ '' not found or you don't have access to it. '')
                    @ error_text)))))
           | Success _ \<Rightarrow>
               bind (lift (formatDescriptionForJira description)) (\<lambda>formattedDescription.
                 let fields = [(''project'', JObj [(''key'', projectKey)]),
                               (''summary'', summary),
                               (''issuetype'', JObj [(''name'', issueType)])];
                     fields = (if truthy formattedDescription
                               then fields @ [(''description'', formattedDescription)]
                               else fields);
                     issueData = JObj [(''fields'', JObj fields)]
                 in makeJiraRequest tr (str ''/issue'')
                      \<lparr>opt_method = JStr (str ''POST''), opt_body = issueData\<rparr>)))"

definition deleteIssue :: "transport \<Rightarrow> jsval \<Rightarrow> result prog" where
  "deleteIssue tr issueKey =
     (if \<not> truthy issueKey
      then ret (Failure (JStr (str ''Issue key is required (e.g., BTS-1)'')))
      else bind (lift (toString issueKey)) (\<lambda>key_text.
        makeJiraRequest tr (str ''/issue/'' @ key_text)
          \<lparr>opt_method = JStr (str ''DELETE''), opt_body = JUndefined\<rparr>))"

section \<open>Credential checks\<close>

definition checkCredentials :: "transport \<Rightarrow> bool prog" where
  "checkCredentials tr w =
     (if email w = [] \<or> apiToken w = [] then (Return False, w)
      else bind (getCurrentUser tr) (\<lambda>userResult.
        case userResult of
          Failure error \<Rightarrow> ret False
        | Success _ \<Rightarrow>
            bind (getProjectsList tr) (\<lambda>projectsResult.
              case projectsResult of
                Failure error \<Rightarrow> ret False
              | Success projects \<Rightarrow>
                  bind (lift (member projects ''length'')) (\<lambda>len.
                    if len = JNum ''0'' then ret False else ret True))) w)"

text \<open>
  The two variables \<^verbatim>\<open>JIRA_EMAIL\<close> and \<^verbatim>\<open>JIRA_API_TOKEN\<close> of the process environment:
  a string, or \<open>None\<close> when the variable is not set.
\<close>

record env =
  JIRA_EMAIL :: "string option"
  JIRA_API_TOKEN :: "string option"

definition useEnvCredentials :: "transport \<Rightarrow> env \<Rightarrow> bool prog" where
  "useEnvCredentials tr environment w =
     (case (JIRA_EMAIL environment, JIRA_API_TOKEN environment) of
        (Some envEmail, Some envToken) \<Rightarrow>
          if envEmail \<noteq> [] \<and> envToken \<noteq> []
          then bind (checkCredentials tr) (\<lambda>isValid.
                 if \<not> isValid then ret False else ret True)
                 (setCredentials envEmail envToken w)
          else (Return False, w)
      | _ \<Rightarrow> (Return False, w))"

definition enterCredentialsManually :: "transport \<Rightarrow> bool prog" where
  "enterCredentialsManually tr =
     bind question (\<lambda>jiraEmail.
     bind question (\<lambda>jiraToken.
       if trim jiraEmail = [] \<or> trim jiraToken = [] then ret False
       else (\<lambda>w. bind (checkCredentials tr) (\<lambda>isValid.
                    if isValid then ret True else ret False)
                    (setCredentials (trim jiraEmail) (trim jiraToken) w))))"

section \<open>Interactive workflow\<close>

text \<open>
  What printing one line of the project list evaluates: the template literal reads the
  key and the name of the project and converts each to a string.
\<close>

definition show_project :: "jsval \<Rightarrow> unit outcome" where
  "show_project project =
     obind (member project ''key'') (\<lambda>key.
     obind (interpolate key) (\<lambda>_.
     obind (member project ''name'') (\<lambda>name.
     interpolate name)))"

definition selectProject :: "transport \<Rightarrow> jsval prog" where
  "selectProject tr =
     try_catch
       (bind (getProjectsList tr) (\<lambda>projectsResult.
          case projectsResult of
            Failure error \<Rightarrow> ret JNull
          | Success projects \<Rightarrow>
              bind (lift (member projects ''length'')) (\<lambda>len.
                if len = JNum ''0'' then ret JNull
                else (case projects of
                  JArr ps \<Rightarrow>
                    bind (lift (forEach ps show_project)) (\<lambda>_.
                    bind (lift (interpolate len)) (\<lambda>_.
                    bind question (\<lambda>projectChoice.
                      case parseInt projectChoice of
                        None \<Rightarrow> ret JNull
                      | Some n \<Rightarrow>
                          (let projectIndex = n - 1
                           in if projectIndex < 0 \<or> projectIndex \<ge> int (length ps)
                              then ret JNull
                              else (let selectedProject = ps ! nat projectIndex
                                    in bind (lift (show_project selectedProject)) (\<lambda>_.
                                         ret selectedProject))))))
                | _ \<Rightarrow> lift (Throw TypeError)))))
       (ret JNull)"

text \<open>
  What printing one line of the issue list evaluates, and also what the warning before a
  deletion and the report after it evaluate: the key and the summary of the issue, each
  converted to a string.
\<close>

definition show_issue :: "jsval \<Rightarrow> unit outcome" where
  "show_issue issue =
     obind (member issue ''key'') (\<lambda>key.
     obind (interpolate key) (\<lambda>_.
     obind (member issue ''fields'') (\<lambda>fields.
     obind (member fields ''summary'') (\<lambda>summary.
     interpolate summary))))"

text \<open>
  Both headings of \<open>selectIssueFromList\<close> embed the project key; the second also embeds
  the length, as the prompt does.
\<close>

definition selectIssueFromList :: "jsval \<Rightarrow> jsval \<Rightarrow> jsval prog" where
  "selectIssueFromList issues projectKey =
     bind (lift (member issues ''length'')) (\<lambda>len.
       if len = JNum ''0''
       then bind (lift (interpolate projectKey)) (\<lambda>_. ret JNull)
       else bind (lift (interpolate len)) (\<lambda>_.
            bind (lift (interpolate projectKey)) (\<lambda>_.
              case issues of
                JArr xs \<Rightarrow>
                  bind (lift (forEach xs show_issue)) (\<lambda>_.
                  bind (lift (interpolate len)) (\<lambda>_.
                  bind question (\<lambda>issueChoice.
                    case parseInt issueChoice of
                      None \<Rightarrow> ret JNull
                    | Some n \<Rightarrow>
                        (let issueIndex = n - 1
                         in if issueIndex < 0 \<or> issueIndex \<ge> int (length xs)
                            then ret JNull
                            else ret (xs ! nat issueIndex)))))
              | _ \<Rightarrow> lift (Throw TypeError))))"

definition selectIssueFromProject :: "transport \<Rightarrow> jsval prog" where
  "selectIssueFromProject tr =
     try_catch
       (bind (selectProject tr) (\<lambda>selectedProject.
          if \<not> truthy selectedProject then ret JNull
          else bind (lift (interpolate (get selectedProject ''key''))) (\<lambda>_.
               bind (getIssuesList tr (get selectedProject ''key'') JUndefined)
                 (\<lambda>issuesResult.
                    case issuesResult of
                      Failure error \<Rightarrow> ret JNull
                    | Success issuesData \<Rightarrow>
                        bind (lift (member issuesData ''issues'')) (\<lambda>issues.
                          selectIssueFromList issues (get selectedProject ''key''))))))
       (ret JNull)"

text \<open>
  What printing the details of an issue evaluates. The values are passed to
  \<^verbatim>\<open>console.log\<close> as arguments of their own, which does not convert them with ToString.
\<close>

definition show_issue_details :: "jsval \<Rightarrow> unit outcome" where
  "show_issue_details issue =
     obind (member issue ''key'') (\<lambda>_.
     obind (member issue ''fields'') (\<lambda>fields.
     obind (member fields ''summary'') (\<lambda>_.
     obind (member fields ''description'') (\<lambda>_.
     obind (member fields ''assignee'') (\<lambda>assignee.
     obind (Return (opt_get assignee ''displayName'')) (\<lambda>_.
     obind (member fields ''status'') (\<lambda>status.
     obind (member status ''name'') (\<lambda>_.
     obind (member fields ''issuetype'') (\<lambda>issuetype.
     obind (member issuetype ''name'') (\<lambda>_. Return ()))))))))))"

definition displayIssue :: "transport \<Rightarrow> jsval \<Rightarrow> unit prog" where
  "displayIssue tr issueKey =
     try_catch
       (bind (lift (interpolate issueKey)) (\<lambda>_.
        bind (getIssue tr issueKey) (\<lambda>result.
          case result of
            Success issue \<Rightarrow> lift (show_issue_details issue)
          | Failure error \<Rightarrow> ret ())))
       (ret ())"

definition selectAndDisplayIssue :: "transport \<Rightarrow> unit prog" where
  "selectAndDisplayIssue tr =
     bind (selectIssueFromProject tr) (\<lambda>selectedIssue.
       if truthy selectedIssue then displayIssue tr (get selectedIssue ''key'')
       else ret ())"

definition createNewIssue :: "transport \<Rightarrow> unit prog" where
  "createNewIssue tr =
     try_catch
       (bind (selectProject tr) (\<lambda>selectedProject.
          if \<not> truthy selectedProject then ret ()
          else bind question (\<lambda>summary.
               bind question (\<lambda>description.
                 if trim summary = [] then ret ()
                 else bind (createIssue tr (get selectedProject ''key'')
                              (JStr (str (trim summary))) (JStr (str (trim description)))
                              JUndefined)
                        (\<lambda>result.
                           case result of
                             Success created \<Rightarrow>
                               lift (obind (member created ''key'') (\<lambda>_.
                                     obind (member created ''key'') (\<lambda>key.
                                     interpolate key)))
                           | Failure error \<Rightarrow> ret ())))))
       (ret ())"

definition deleteSelectedIssue :: "transport \<Rightarrow> unit prog" where
  "deleteSelectedIssue tr =
     try_catch
       (bind (selectIssueFromProject tr) (\<lambda>selectedIssue.
          if \<not> truthy selectedIssue then ret ()
          else bind (lift (show_issue selectedIssue)) (\<lambda>_.
               bind question (\<lambda>confirmation.
                 if toLowerCase confirmation \<noteq> ''yes'' then ret ()
                 else bind (lift (interpolate (get selectedIssue ''key''))) (\<lambda>_.
                      bind (deleteIssue tr (get selectedIssue ''key'')) (\<lambda>result.
                        case result of
                          Success _ \<Rightarrow> lift (show_issue selectedIssue)
                        | Failure error \<Rightarrow> ret ()))))))
       (ret ())"

text \<open>
  One pass through the body of the loop of \<^verbatim>\<open>setupMenu\<close> and of \<^verbatim>\<open>mainMenu\<close>; the result
  tells whether the loop is left.
\<close>

definition setupMenu_pass :: "transport \<Rightarrow> env \<Rightarrow> bool prog" where
  "setupMenu_pass tr environment =
     bind question (\<lambda>choice.
       if trim choice = ''1''
       then bind (useEnvCredentials tr environment) (\<lambda>envSuccess. ret envSuccess)
       else if trim choice = ''2''
       then bind (enterCredentialsManually tr) (\<lambda>success.
              (\<lambda>w. (Return (success \<and> email w \<noteq> [] \<and> apiToken w \<noteq> []), w)))
       else ret False)"

definition mainMenu_pass :: "transport \<Rightarrow> bool prog" where
  "mainMenu_pass tr =
     bind question (\<lambda>choice.
       if trim choice = ''1'' then bind (selectAndDisplayIssue tr) (\<lambda>_. ret False)
       else if trim choice = ''2'' then bind (createNewIssue tr) (\<lambda>_. ret False)
       else if trim choice = ''3'' then bind (deleteSelectedIssue tr) (\<lambda>_. ret False)
       else if trim choice = ''4'' then ret True
       else ret False)"

text \<open>
  The states of a run of \<^verbatim>\<open>main\<close>, taken between the passes of the two menu loops: the
  program starts with the three session variables empty, and then makes passes of the
  setup menu and of the main menu.
\<close>

inductive reachable :: "transport \<Rightarrow> env \<Rightarrow> world \<Rightarrow> bool" for tr environment where
  at_start: "reachable tr environment (initial lines)"
| after_setup_pass: "reachable tr environment w \<Longrightarrow> setupMenu_pass tr environment w = (r, w')
          \<Longrightarrow> reachable tr environment w'"
| after_main_pass: "reachable tr environment w \<Longrightarrow> mainMenu_pass tr w = (r, w')
          \<Longrightarrow> reachable tr environment w'"

section \<open>Transport failures as the specification describes them\<close>

text \<open>
  The failures that the specification of the result normalizer speaks about: the reply of
  the server, if there was one, with its HTTP status and, if it has a body, the body's
  \<^verbatim>\<open>errorMessages\<close> array and keyed \<^verbatim>\<open>errors\<close> object where present; and the message text of
  the underlying error, if any. \<open>error_js\<close> is the error object that the transport rejects
  with for such a failure.
\<close>

record jira_body =
  b_errorMessages :: "string list option"
  b_errors :: "(string \<times> string) list option"

record http_reply =
  r_status :: int
  r_body :: "jira_body option"

record failure =
  f_reply :: "http_reply option"
  f_message :: "string option"

definition body_js :: "jira_body \<Rightarrow> jsval" where
  "body_js b =
     JObj ((case b_errorMessages b of
              None \<Rightarrow> []
            | Some ms \<Rightarrow> [(''errorMessages'', JArr (map (\<lambda>m. JStr (str m)) ms))])
         @ (case b_errors b of
              None \<Rightarrow> []
            | Some kvs \<Rightarrow> [(''errors'', JObj (map (\<lambda>(k, v). (k, JStr (str v))) kvs))]))"

definition reply_js :: "http_reply \<Rightarrow> jsval" where
  "reply_js r =
     JObj [(''status'', JNum (show_int (r_status r))),
           (''data'', (case r_body r of None \<Rightarrow> JUndefined | Some b \<Rightarrow> body_js b))]"

definition error_js :: "failure \<Rightarrow> js_error" where
  "error_js f =
     \<lparr>response = (case f_reply f of None \<Rightarrow> JUndefined | Some r \<Rightarrow> reply_js r),
      message = (case f_message f of None \<Rightarrow> JUndefined | Some m \<Rightarrow> JStr (str m))\<rparr>"

text \<open>The parts of a failure that the precedence of the specification looks at.\<close>

definition body_of :: "failure \<Rightarrow> jira_body option" where
  "body_of f = (case f_reply f of None \<Rightarrow> None | Some r \<Rightarrow> r_body r)"

definition errorMessages_of :: "failure \<Rightarrow> string list option" where
  "errorMessages_of f = (case body_of f of None \<Rightarrow> None | Some b \<Rightarrow> b_errorMessages b)"

definition errors_of :: "failure \<Rightarrow> (string \<times> string) list option" where
  "errors_of f = (case body_of f of None \<Rightarrow> None | Some b \<Rightarrow> b_errors b)"

definition status_of :: "failure \<Rightarrow> int option" where
  "status_of f = (case f_reply f of None \<Rightarrow> None | Some r \<Rightarrow> Some (r_status r))"

text \<open>Steps (2) to (7) of the precedence, in the words of the specification.\<close>

definition later_branches :: "failure \<Rightarrow> string" where
  "later_branches f =
     (case errors_of f of
        Some kvs \<Rightarrow> join '', '' (map snd kvs)
      | None \<Rightarrow>
          if status_of f = Some 401
          then ''Authentication failed. Please check your email and API token.''
          else if status_of f = Some 403
          then ''Access denied. You may not have permission for this action.''
          else if status_of f = Some 404
          then ''Resource not found. Please check the issue key or project key.''
          else (case f_message f of
                  Some m \<Rightarrow> if m \<noteq> [] then m else ''Unknown error occurred''
                | None \<Rightarrow> ''Unknown error occurred''))"

text \<open>
  The precedence as the specification words it: step (1) applies when the
  \<^verbatim>\<open>errorMessages\<close> array is present and not empty.
\<close>

definition spec_error_message :: "failure \<Rightarrow> string" where
  "spec_error_message f =
     (case errorMessages_of f of
        Some (m # ms) \<Rightarrow> m
      | _ \<Rightarrow> later_branches f)"

text \<open>
  The precedence with step (1) applying when the first entry of \<^verbatim>\<open>errorMessages\<close> is
  there and is not the empty string.
\<close>

definition error_message :: "failure \<Rightarrow> string" where
  "error_message f =
     (case errorMessages_of f of
        Some (m # ms) \<Rightarrow> if m \<noteq> [] then m else later_branches f
      | _ \<Rightarrow> later_branches f)"

section \<open>Notions used in the properties\<close>

text \<open>The session variables, which only \<open>setCredentials\<close> writes.\<close>

definition session :: "world \<Rightarrow> string \<times> string \<times> string" where
  "session w = (email w, apiToken w, baseURL w)"

text \<open>A function that leaves the session variables as they are, whatever it returns.\<close>

definition keeps_session :: "'a prog \<Rightarrow> bool" where
  "keeps_session m = (\<forall>w. session (snd (m w)) = session w)"

text \<open>
  A function that leaves the session variables as they are or as \<open>setCredentials\<close> sets
  them.
\<close>

definition credentials_only :: "'a prog \<Rightarrow> bool" where
  "credentials_only m =
     (\<forall>w. session (snd (m w)) = session w
        \<or> (\<exists>e t. session (snd (m w)) = session (setCredentials e t w)))"

text \<open>A function whose returned values all satisfy \<open>P\<close>.\<close>

definition returns_only :: "('a \<Rightarrow> bool) \<Rightarrow> 'a prog \<Rightarrow> bool" where
  "returns_only P m = (\<forall>w v w'. m w = (Return v, w') \<longrightarrow> P v)"

text \<open>A value that a template literal can embed: its conversion to a string returns.\<close>

definition printable :: "jsval \<Rightarrow> bool" where
  "printable v = (interpolate v = Return ())"

text \<open>
  The index that a typed line selects in a numbered list of \<open>n\<close> items: the integer that
  \<open>parseInt\<close> reads from the line, less one, when that lies from 0 to \<open>n - 1\<close>.
\<close>

definition chosen_index :: "string \<Rightarrow> nat \<Rightarrow> nat option" where
  "chosen_index line n =
     (case parseInt line of
        None \<Rightarrow> None
      | Some v \<Rightarrow> if 1 \<le> v \<and> v \<le> int n then Some (nat (v - 1)) else None)"

text \<open>
  A required argument that is missing (\<^verbatim>\<open>undefined\<close>, \<^verbatim>\<open>null\<close>, or anything else that is
  falsy, such as the empty string) or that is a string blank after trimming.
\<close>

definition blank :: "jsval \<Rightarrow> bool" where
  "blank v = (\<not> truthy v \<or> (case v of JStr s \<Rightarrow> trim_units s = [] | _ \<Rightarrow> False))"

text \<open>A line that is a number written in decimal digits and nothing else.\<close>

definition numeric :: "string \<Rightarrow> bool" where
  "numeric line = (line \<noteq> [] \<and> list_all (is_digit 10) line)"

section \<open>An example server\<close>

text \<open>
  A transport for the examples: it answers the request for the project list with three
  projects and every other request with a page of two issues.
\<close>

definition example_projects :: "jsval list" where
  "example_projects =
     [JObj [(''key'', JStr (str ''BTS'')), (''name'', JStr (str ''Bug tracking''))],
      JObj [(''key'', JStr (str ''OPS'')), (''name'', JStr (str ''Operations''))],
      JObj [(''key'', JStr (str ''WEB'')), (''name'', JStr (str ''Web site''))]]"

definition example_issues :: "jsval list" where
  "example_issues =
     [JObj [(''key'', JStr (str ''BTS-1'')),
            (''fields'', JObj [(''summary'', JStr (str ''Crash on start''))])],
      JObj [(''key'', JStr (str ''BTS-2'')),
            (''fields'', JObj [(''summary'', JStr (str ''Wrong total''))])]]"

definition example_jira :: transport where
  "example_jira history request =
     (if url request = str ''/rest/api/3/project'' then Inr (JArr example_projects)
      else Inr (JObj [(''issues'', JArr example_issues)]))"

text \<open>The two requests that list the projects and the issues of the first project.\<close>

definition example_listing :: "config list" where
  "example_listing =
     [\<lparr>url = str ''/rest/api/3/project'', http_method = JStr (str ''GET''),
       username = [], password = [],
       headers = [(''Accept'', ''application/json'')], data = JUndefined\<rparr>,
      \<lparr>url = str ''/rest/api/3/search?jql=project%20%3D%20BTS%20ORDER%20BY%20created%20ASC&maxResults=50'',
       http_method = JStr (str ''GET''), username = [], password = [],
       headers = [(''Accept'', ''application/json'')], data = JUndefined\<rparr>]"

section \<open>Properties\<close>

subsection \<open>Literals\<close>

lemma str_Nil [simp]: "str [] = []"
  by (simp add: str_def)

lemma str_append: "str (a @ b) = str a @ str b"
  by (simp add: str_def)

lemma str_eq_iff [simp]: "str a = str b \<longleftrightarrow> a = b"
proof -
  have "inj (of_char :: char \<Rightarrow> nat)"
    by (rule injI) simp
  then show ?thesis
    unfolding str_def by (rule inj_map_eq_map)
qed

lemma str_eq_Nil [simp]: "str a = [] \<longleftrightarrow> a = []"
  by (simp add: str_def)

lemma join_str: "join (str sep) (map str xs) = str (join sep xs)"
  by (induction sep xs rule: join.induct) (simp_all add: str_append)

subsection \<open>The base URL\<close>

lemma split_nonempty: "split s c \<noteq> []"
  by (induction s) (auto split: list.splits)

lemma hd_split: "hd (split s c) = takeWhile (\<lambda>x. x \<noteq> c) s"
proof (induction s)
  case Nil
  show ?case by simp
next
  case (Cons x xs)
  then show ?case
    using split_nonempty [of xs c] by (auto split: list.splits)
qed

text \<open>
  C6. For every email string, the derived base URL is empty when the email is empty or has
  no \<open>@\<close>, and otherwise is \<open>https://\<close>, then the part of the email before its first \<open>@\<close>,
  then \<open>.atlassian.net\<close>; \<open>setCredentials\<close> stores exactly this derivation of the email it
  is given, and \<open>alice@co\<close> yields \<open>https://alice.atlassian.net\<close>.
\<close>

theorem generateBaseURLFromEmail_spec:
  "generateBaseURLFromEmail e =
     (if e = [] \<or> CHR ''@'' \<notin> set e then []
      else ''https://'' @ takeWhile (\<lambda>x. x \<noteq> CHR ''@'') e @ ''.atlassian.net'')
   \<and> baseURL (setCredentials e t w) = generateBaseURLFromEmail e
   \<and> email (setCredentials e t w) = e
   \<and> apiToken (setCredentials e t w) = t"
  by (simp add: generateBaseURLFromEmail_def setCredentials_def str_includes_def hd_split)

theorem generateBaseURLFromEmail_spec_witness:
  "generateBaseURLFromEmail ''alice@co'' = ''https://alice.atlassian.net''
   \<and> generateBaseURLFromEmail ''alice'' = []
   \<and> generateBaseURLFromEmail [] = []
   \<and> baseURL (setCredentials ''alice@co'' ''tok'' (initial [])) = ''https://alice.atlassian.net''"
  using generateBaseURLFromEmail_spec [of "''alice@co''" "''tok''" "initial []"]
    generateBaseURLFromEmail_spec [of "''alice''" "''tok''" "initial []"]
    generateBaseURLFromEmail_spec [of "[]" "''tok''" "initial []"]
  by simp

subsection \<open>Decimal numerals\<close>

lemma of_char_digit_char: "d < 10 \<Longrightarrow> of_char (digit_char d) = (48 + d :: nat)"
  by (simp add: digit_char_def)

lemma digit_value_digit_char: "d < 10 \<Longrightarrow> digit_value (digit_char d) = Some d"
  by (simp add: digit_value_def of_char_digit_char)

lemma is_digit_digit_char: "d < 10 \<Longrightarrow> is_digit 10 (digit_char d)"
  by (simp add: is_digit_def digit_value_digit_char)

lemma not_space_digit_char: "d < 10 \<Longrightarrow> \<not> is_space (digit_char d)"
  by (simp add: is_space_def is_space_unit_def of_char_digit_char)

lemma digit_char_not_mark:
  assumes "d < 10"
  shows "digit_char d \<noteq> CHR ''-''" and "digit_char d \<noteq> CHR ''+''"
    and "digit_char d \<noteq> CHR ''x''" and "digit_char d \<noteq> CHR ''X''"
proof -
  have "of_char (digit_char d) \<noteq> (of_char c :: nat) \<Longrightarrow> digit_char d \<noteq> c" for c
    by auto
  then show "digit_char d \<noteq> CHR ''-''" and "digit_char d \<noteq> CHR ''+''"
    and "digit_char d \<noteq> CHR ''x''" and "digit_char d \<noteq> CHR ''X''"
    using assms by (simp_all add: of_char_digit_char)
qed

lemma show_nat_decimal: "c \<in> set (show_nat n) \<Longrightarrow> \<exists>d<10. c = digit_char d"
proof (induction n rule: show_nat.induct)
  case (1 n)
  show ?case
  proof (cases "n < 10")
    case True
    then have "show_nat n = [digit_char n]"
      by (subst show_nat.simps) simp
    then show ?thesis
      using True "1.prems" by auto
  next
    case False
    then have s: "show_nat n = show_nat (n div 10) @ [digit_char (n mod 10)]"
      by (subst show_nat.simps) simp
    have m: "n mod 10 < 10" by simp
    from "1.prems" s have "c \<in> set (show_nat (n div 10)) \<or> c = digit_char (n mod 10)"
      by auto
    then show ?thesis
      using "1.IH" [OF False] m by blast
  qed
qed

lemma show_nat_nonempty: "show_nat n \<noteq> []"
  by (subst show_nat.simps) simp

lemma digits_value_snoc:
  "digits_value r (z @ [c]) =
     digits_value r z * r + (case digit_value c of None \<Rightarrow> 0 | Some d \<Rightarrow> d)"
  by (simp add: digits_value_def)

lemma digits_value_single:
  "digits_value r [c] = (case digit_value c of None \<Rightarrow> 0 | Some d \<Rightarrow> d)"
  by (simp add: digits_value_def)

lemma digits_value_show_nat: "digits_value 10 (show_nat n) = n"
proof (induction n rule: show_nat.induct)
  case (1 n)
  show ?case
  proof (cases "n < 10")
    case True
    then have "show_nat n = [digit_char n]"
      by (subst show_nat.simps) simp
    then show ?thesis
      using True by (simp add: digits_value_single digit_value_digit_char)
  next
    case False
    then have s: "show_nat n = show_nat (n div 10) @ [digit_char (n mod 10)]"
      by (subst show_nat.simps) simp
    have "n mod 10 < 10" by simp
    then have "digit_value (digit_char (n mod 10)) = Some (n mod 10)"
      by (rule digit_value_digit_char)
    then show ?thesis
      using "1.IH" [OF False] by (simp add: s digits_value_snoc)
  qed
qed

lemma show_nat_inj:
  assumes "show_nat a = show_nat b"
  shows "a = b"
proof -
  have "digits_value 10 (show_nat a) = digits_value 10 (show_nat b)"
    by (simp only: assms)
  then show ?thesis
    by (simp only: digits_value_show_nat)
qed

lemma show_nat_0: "show_nat 0 = ''0''"
  by code_simp

lemma show_nat_eq_0 [simp]: "show_nat n = ''0'' \<longleftrightarrow> n = 0"
  using show_nat_inj [of n 0] by (auto simp: show_nat_0)

lemma show_nat_no_minus: "show_nat n \<noteq> CHR ''-'' # s"
proof
  assume a: "show_nat n = CHR ''-'' # s"
  then have "CHR ''-'' \<in> set (show_nat n)"
    by simp
  then obtain d where "d < 10" "CHR ''-'' = digit_char d"
    using show_nat_decimal by blast
  then show False
    using digit_char_not_mark(1) [of d] by simp
qed

lemma show_int_inj: "show_int a = show_int b \<Longrightarrow> a = b"
proof -
  assume e: "show_int a = show_int b"
  consider "a < 0" "b < 0" | "a < 0" "0 \<le> b" | "0 \<le> a" "b < 0" | "0 \<le> a" "0 \<le> b"
    by linarith
  then show "a = b"
  proof cases
    case 1
    then have "nat (- a) = nat (- b)"
      using e by (auto simp: show_int_def dest: show_nat_inj)
    then show ?thesis using 1 by simp
  next
    case 2
    then show ?thesis
      using e show_nat_no_minus [of "nat b" "show_nat (nat (- a))"] by (simp add: show_int_def)
  next
    case 3
    then show ?thesis
      using e show_nat_no_minus [of "nat a" "show_nat (nat (- b))"] by (simp add: show_int_def)
  next
    case 4
    then have "nat a = nat b"
      using e by (auto simp: show_int_def dest: show_nat_inj)
    then show ?thesis using 4 by simp
  qed
qed

lemma show_int_codes:
  "show_int 401 = ''401''" "show_int 403 = ''403''" "show_int 404 = ''404''"
  by code_simp+

lemma show_int_eq_code:
  "show_int s = ''401'' \<longleftrightarrow> s = 401"
  "show_int s = ''403'' \<longleftrightarrow> s = 403"
  "show_int s = ''404'' \<longleftrightarrow> s = 404"
  using show_int_inj [of s 401] show_int_inj [of s 403] show_int_inj [of s 404]
  by (auto simp: show_int_codes)

subsection \<open>The error precedence of the result normalizer\<close>

lemma sequence_strings:
  "sequence (map (join_elem \<circ> (\<lambda>m. JStr (str m))) xs) = Return (map str xs)"
  by (induction xs) simp_all

lemma array_join_strings:
  "array_join (str sep) (map (\<lambda>m. JStr (str m)) xs) = Return (str (join sep xs))"
  by (simp add: array_join_def sequence_strings join_str)

lemma values_JStr:
  "map (snd \<circ> (\<lambda>(k, v). (k, JStr (str v)))) kvs = map (\<lambda>m. JStr (str m)) (map snd kvs)"
  by (induction kvs) auto

lemma array_join_values:
  "array_join (str sep) (map (snd \<circ> (\<lambda>(k, v). (k, JStr (str v)))) kvs) =
     Return (str (join sep (map snd kvs)))"
  unfolding values_JStr by (rule array_join_strings)

lemma data_error_js:
  "opt_get (response (error_js f)) ''data'' =
     (case body_of f of None \<Rightarrow> JUndefined | Some b \<Rightarrow> body_js b)"
  by (simp add: error_js_def reply_js_def body_of_def opt_get_def split: option.splits)

lemma nullish_body_js: "\<not> nullish (body_js b)"
  by (simp add: body_js_def)

lemma errorMessages_body_js:
  "get (body_js b) ''errorMessages'' =
     (case b_errorMessages b of None \<Rightarrow> JUndefined
      | Some ms \<Rightarrow> JArr (map (\<lambda>m. JStr (str m)) ms))"
  by (simp add: body_js_def split: option.splits)

lemma errors_body_js:
  "get (body_js b) ''errors'' =
     (case b_errors b of None \<Rightarrow> JUndefined
      | Some kvs \<Rightarrow> JObj (map (\<lambda>(k, v). (k, JStr (str v))) kvs))"
  by (simp add: body_js_def split: option.splits)

lemma errorMessages_error_js:
  "opt_get (opt_get (response (error_js f)) ''data'') ''errorMessages'' =
     (case errorMessages_of f of None \<Rightarrow> JUndefined
      | Some ms \<Rightarrow> JArr (map (\<lambda>m. JStr (str m)) ms))"
  unfolding data_error_js
  by (simp add: errorMessages_of_def opt_get_def nullish_body_js
        errorMessages_body_js split: option.splits)

lemma errors_error_js:
  "opt_get (opt_get (response (error_js f)) ''data'') ''errors'' =
     (case errors_of f of None \<Rightarrow> JUndefined
      | Some kvs \<Rightarrow> JObj (map (\<lambda>(k, v). (k, JStr (str v))) kvs))"
  unfolding data_error_js
  by (simp add: errors_of_def opt_get_def nullish_body_js
        errors_body_js split: option.splits)

lemma status_error_js:
  "(truthy (response (error_js f)) \<and> get (response (error_js f)) ''status'' = JNum ''401'')
     = (status_of f = Some 401)"
  "(truthy (response (error_js f)) \<and> get (response (error_js f)) ''status'' = JNum ''403'')
     = (status_of f = Some 403)"
  "(truthy (response (error_js f)) \<and> get (response (error_js f)) ''status'' = JNum ''404'')
     = (status_of f = Some 404)"
  by (simp_all add: error_js_def reply_js_def status_of_def show_int_eq_code
      split: option.splits)

lemma message_error_js:
  "message (error_js f) = (case f_message f of None \<Rightarrow> JUndefined | Some m \<Rightarrow> JStr (str m))"
  by (simp add: error_js_def)

lemma formatJiraError_later:
  "\<not> truthy (opt_first (opt_get (opt_get (response (error_js f)) ''data'') ''errorMessages''))
   \<Longrightarrow> formatJiraError (error_js f) = Return (JStr (str (later_branches f)))"
  unfolding formatJiraError_def later_branches_def
  by (simp add: errors_error_js status_error_js message_error_js
        array_join_values Let_def split: option.splits)

lemma first_entry_error_js:
  "opt_first (opt_get (opt_get (response (error_js f)) ''data'') ''errorMessages'') =
     (case errorMessages_of f of Some (m # ms) \<Rightarrow> JStr (str m) | _ \<Rightarrow> JUndefined)"
  by (simp add: errorMessages_error_js split: option.splits list.splits)

lemma formatJiraError_first:
  "errorMessages_of f = Some (m # ms) \<Longrightarrow> m \<noteq> []
   \<Longrightarrow> formatJiraError (error_js f) = Return (JStr (str m))"
  by (simp add: formatJiraError_def first_entry_error_js)

lemma formatJiraError_skip:
  assumes "errorMessages_of f = None \<or> errorMessages_of f = Some []
     \<or> (\<exists>ms. errorMessages_of f = Some ([] # ms))"
  shows "formatJiraError (error_js f) = Return (JStr (str (later_branches f)))"
  using assms by (intro formatJiraError_later) (auto simp: first_entry_error_js)

lemma formatJiraError_error_js:
  "formatJiraError (error_js f) = Return (JStr (str (error_message f)))"
proof (cases "errorMessages_of f")
  case None
  then show ?thesis
    by (simp add: formatJiraError_skip error_message_def)
next
  case (Some ms)
  show ?thesis
  proof (cases ms)
    case Nil
    then show ?thesis
      using Some by (simp add: formatJiraError_skip error_message_def)
  next
    case (Cons m ms')
    then show ?thesis
      using Some formatJiraError_first [of f m ms'] formatJiraError_skip [of f]
      by (cases "m = []") (simp_all add: error_message_def)
  qed
qed

lemma makeJiraRequest_rejected:
  "tr (calls w) (request_config w path opts) = Inl error
   \<Longrightarrow> makeJiraRequest tr path opts w =
       (obind (formatJiraError error) (\<lambda>formatted. Return (Failure formatted)),
        w\<lparr>calls := calls w @ [request_config w path opts]\<rparr>)"
  by (simp add: makeJiraRequest_def Let_def)

text \<open>
  C1, as the specification words it, fails: with a reply of status 404 whose body holds
  \<^verbatim>\<open>errorMessages: [""]\<close>, the array is present and not empty, so the worded precedence
  yields its first entry, the empty string, while the program yields the message for 404.
\<close>

theorem spec_error_message_counterexample:
  "formatJiraError (error_js
      \<lparr>f_reply = Some \<lparr>r_status = 404,
          r_body = Some \<lparr>b_errorMessages = Some [''''], b_errors = None\<rparr>\<rparr>,
       f_message = None\<rparr>)
   \<noteq> Return (JStr (str (spec_error_message
      \<lparr>f_reply = Some \<lparr>r_status = 404,
          r_body = Some \<lparr>b_errorMessages = Some [''''], b_errors = None\<rparr>\<rparr>,
       f_message = None\<rparr>)))"
  by (simp add: formatJiraError_error_js error_message_def spec_error_message_def
      later_branches_def errorMessages_of_def errors_of_def status_of_def body_of_def)

text \<open>
  C1, amended. For every transport failure, \<open>makeJiraRequest\<close> returns the failure result
  whose error is chosen by this precedence: (1) the first entry of the body's
  \<^verbatim>\<open>errorMessages\<close> when that entry is there and is not the empty string; else (2) the
  values of the body's keyed \<^verbatim>\<open>errors\<close> object joined with a comma and a space; else the
  fixed messages for (3) status 401, (4) 403, (5) 404; else (6) the message text of the
  underlying error if it has one; else (7) the text for an unknown error.
\<close>

theorem formatJiraError_precedence:
  "formatJiraError (error_js f) = Return (JStr (str (error_message f)))
   \<and> (tr (calls w) (request_config w path opts) = Inl (error_js f) \<longrightarrow>
        makeJiraRequest tr path opts w =
          (Return (Failure (JStr (str (error_message f)))),
           w\<lparr>calls := calls w @ [request_config w path opts]\<rparr>))"
  by (simp add: formatJiraError_error_js makeJiraRequest_rejected)

theorem formatJiraError_precedence_witness:
  "makeJiraRequest
     (\<lambda>history request. Inl (error_js
        \<lparr>f_reply = Some \<lparr>r_status = 400,
            r_body = Some \<lparr>b_errorMessages = Some [''A''],
                            b_errors = Some [(''x'', ''B'')]\<rparr>\<rparr>,
         f_message = Some ''Request failed with status code 400''\<rparr>))
     (str ''/myself'') no_options (initial [])
   = (Return (Failure (JStr (str ''A''))),
      (initial [])\<lparr>calls := [request_config (initial []) (str ''/myself'') no_options]\<rparr>)
   \<and> formatJiraError (error_js
        \<lparr>f_reply = Some \<lparr>r_status = 400,
            r_body = Some \<lparr>b_errorMessages = None,
                            b_errors = Some [(''x'', ''B''), (''y'', ''C'')]\<rparr>\<rparr>,
         f_message = Some ''Request failed with status code 400''\<rparr>)
     = Return (JStr (str ''B, C''))"
proof -
  let ?f = "\<lparr>f_reply = Some \<lparr>r_status = 400,
            r_body = Some \<lparr>b_errorMessages = Some [''A''],
                            b_errors = Some [(''x'', ''B'')]\<rparr>\<rparr>,
         f_message = Some ''Request failed with status code 400''\<rparr>"
  let ?g = "\<lparr>f_reply = Some \<lparr>r_status = 400,
            r_body = Some \<lparr>b_errorMessages = None,
                            b_errors = Some [(''x'', ''B''), (''y'', ''C'')]\<rparr>\<rparr>,
         f_message = Some ''Request failed with status code 400''\<rparr>"
  have a: "error_message ?f = ''A''"
    by (simp add: error_message_def errorMessages_of_def body_of_def)
  have b: "error_message ?g = ''B, C''"
    by (simp add: error_message_def later_branches_def errorMessages_of_def errors_of_def
        body_of_def)
  show ?thesis
    using formatJiraError_precedence
            [of ?f "\<lambda>history request. Inl (error_js ?f)" "initial []" "str ''/myself''"
               no_options]
          formatJiraError_precedence
            [of ?g "\<lambda>history request. Inl (error_js ?g)" "initial []" "str ''/myself''"
               no_options]
    by (simp add: a b initial_def)
qed

text \<open>
  C10. The first branch of \<open>formatJiraError\<close> tests the first entry of \<^verbatim>\<open>errorMessages\<close>, not
  the presence of the array: when the array is present but empty or starting with the
  empty string, the branch is skipped and the result is the one of the later branches,
  steps (2) to (7); when the first entry is a string that is not empty, the result is
  that entry. So a body with \<^verbatim>\<open>errorMessages: [""]\<close> and \<^verbatim>\<open>errors: {x: "B"}\<close> yields \<open>B\<close>, not
  the empty string.
\<close>

theorem formatJiraError_tests_first_entry:
  "(errorMessages_of f = Some ms \<and> (ms = [] \<or> hd ms = []) \<longrightarrow>
      formatJiraError (error_js f) = Return (JStr (str (later_branches f))))
   \<and> (errorMessages_of f = Some ms \<and> ms \<noteq> [] \<and> hd ms \<noteq> [] \<longrightarrow>
      formatJiraError (error_js f) = Return (JStr (str (hd ms))))"
  using formatJiraError_skip [of f] formatJiraError_first [of f "hd ms" "tl ms"]
  by (cases ms) auto

theorem formatJiraError_tests_first_entry_witness:
  "formatJiraError (error_js
     \<lparr>f_reply = Some \<lparr>r_status = 400,
         r_body = Some \<lparr>b_errorMessages = Some [''''], b_errors = Some [(''x'', ''B'')]\<rparr>\<rparr>,
      f_message = None\<rparr>)
   = Return (JStr (str ''B''))
   \<and> formatJiraError (error_js
     \<lparr>f_reply = Some \<lparr>r_status = 400,
         r_body = Some \<lparr>b_errorMessages = Some [], b_errors = Some [(''x'', ''B'')]\<rparr>\<rparr>,
      f_message = None\<rparr>)
   = Return (JStr (str ''B''))
   \<and> formatJiraError (error_js
     \<lparr>f_reply = Some \<lparr>r_status = 400,
         r_body = Some \<lparr>b_errorMessages = Some [''A''], b_errors = Some [(''x'', ''B'')]\<rparr>\<rparr>,
      f_message = None\<rparr>)
   = Return (JStr (str ''A''))"
proof -
  let ?f = "\<lambda>ms. \<lparr>f_reply = Some \<lparr>r_status = 400,
         r_body = Some \<lparr>b_errorMessages = Some ms, b_errors = Some [(''x'', ''B'')]\<rparr>\<rparr>,
      f_message = None\<rparr>"
  have e: "errorMessages_of (?f ms) = Some ms" for ms
    by (simp add: errorMessages_of_def body_of_def)
  have l: "later_branches (?f ms) = ''B''" for ms
    by (simp add: later_branches_def errors_of_def body_of_def)
  show ?thesis
    using formatJiraError_tests_first_entry [of "?f ['''']" "['''']"]
      formatJiraError_tests_first_entry [of "?f []" "[]"]
      formatJiraError_tests_first_entry [of "?f [''A'']" "[''A'']"]
    by (simp add: e l)
qed

subsection \<open>Sequencing\<close>

lemma bind_Return: "m w = (Return x, w') \<Longrightarrow> bind m f w = f x w'"
  by (simp add: bind_def)

lemma bind_Throw: "m w = (Throw e, w') \<Longrightarrow> bind m f w = (Throw e, w')"
  by (simp add: bind_def)

lemma bind_Hang: "m w = (Hang, w') \<Longrightarrow> bind m f w = (Hang, w')"
  by (simp add: bind_def)

lemma bind_ret: "bind (ret x) f w = f x w"
  by (simp add: bind_def ret_def)

lemma bind_lift_Return: "bind (lift (Return x)) f w = f x w"
  by (simp add: bind_def lift_def)

lemma bind_lift_Throw: "bind (lift (Throw e)) f w = (Throw e, w)"
  by (simp add: bind_def lift_def)

lemma try_catch_Return: "m w = (Return x, w') \<Longrightarrow> try_catch m h w = (Return x, w')"
  by (simp add: try_catch_def)

lemma try_catch_Throw: "m w = (Throw e, w') \<Longrightarrow> try_catch m h w = h w'"
  by (simp add: try_catch_def)

lemma try_catch_Hang: "m w = (Hang, w') \<Longrightarrow> try_catch m h w = (Hang, w')"
  by (simp add: try_catch_def)

subsection \<open>Requests\<close>

lemma request_config_calls [simp]:
  "request_config (w\<lparr>calls := cs\<rparr>) path opts = request_config w path opts"
  by (simp add: request_config_def)

lemma request_config_stdin [simp]:
  "request_config (w\<lparr>stdin := ls\<rparr>) path opts = request_config w path opts"
  by (simp add: request_config_def)

lemma request_config_get:
  "request_config w path no_options =
     \<lparr>url = str (baseURL w) @ str ''/rest/api/3'' @ path, http_method = JStr (str ''GET''),
      username = str (email w), password = str (apiToken w),
      headers = [(''Accept'', ''application/json'')], data = JUndefined\<rparr>"
  by (simp add: request_config_def no_options_def)

lemma request_config_delete:
  "request_config w path \<lparr>opt_method = JStr (str ''DELETE''), opt_body = JUndefined\<rparr> =
     \<lparr>url = str (baseURL w) @ str ''/rest/api/3'' @ path, http_method = JStr (str ''DELETE''),
      username = str (email w), password = str (apiToken w),
      headers = [(''Accept'', ''application/json'')], data = JUndefined\<rparr>"
  by (simp add: request_config_def)

lemma snd_makeJiraRequest:
  "snd (makeJiraRequest tr path opts w) = w\<lparr>calls := calls w @ [request_config w path opts]\<rparr>"
  by (simp add: makeJiraRequest_def Let_def split: sum.splits)

lemma obind_not_Hang: "r \<noteq> Hang \<Longrightarrow> (\<And>x. f x \<noteq> Hang) \<Longrightarrow> obind r f \<noteq> Hang"
  by (cases r) simp_all

lemma sequence_not_Hang:
  "(\<And>x. x \<in> set xs \<Longrightarrow> f x \<noteq> Hang) \<Longrightarrow> sequence (map f xs) \<noteq> Hang"
proof (induction xs)
  case Nil
  show ?case by simp
next
  case (Cons x xs)
  have t: "sequence (map f xs) \<noteq> Hang"
    using Cons by simp
  have h: "f x \<noteq> Hang"
    using Cons.prems by simp
  show ?case
    using t h by (cases "f x"; cases "sequence (map f xs)") simp_all
qed

lemma toString_not_Hang: "toString v \<noteq> Hang"
proof (induction v)
  case (JArr xs)
  have "sequence (map join_elem xs) \<noteq> Hang"
  proof (rule sequence_not_Hang)
    fix x
    assume "x \<in> set xs"
    then show "join_elem x \<noteq> Hang"
      using JArr [of x] by simp
  qed
  then show ?case
    by (cases "sequence (map join_elem xs)") simp_all
qed simp_all

lemma array_join_not_Hang: "array_join sep xs \<noteq> Hang"
proof -
  have "sequence (map join_elem xs) \<noteq> Hang"
  proof (rule sequence_not_Hang)
    fix x
    show "join_elem x \<noteq> Hang"
      using toString_not_Hang [of x] by simp
  qed
  then show ?thesis
    by (cases "sequence (map join_elem xs)") (simp_all add: array_join_def)
qed

lemma formatJiraError_not_Hang: "formatJiraError error \<noteq> Hang"
proof -
  have "obind (array_join sep xs) (\<lambda>joined. Return (JStr joined)) \<noteq> Hang" for sep xs
    by (intro obind_not_Hang array_join_not_Hang) simp
  then show ?thesis
    by (simp add: formatJiraError_def Let_def)
qed

lemma makeJiraRequest_not_Hang: "fst (makeJiraRequest tr path opts w) \<noteq> Hang"
proof (cases "tr (calls w) (request_config w path opts)")
  case (Inl error)
  then show ?thesis
    using formatJiraError_not_Hang [of error]
    by (cases "formatJiraError error") (simp_all add: makeJiraRequest_def Let_def)
next
  case (Inr d)
  then show ?thesis
    by (simp add: makeJiraRequest_def Let_def)
qed

lemma makeJiraRequest_resolved:
  "tr (calls w) (request_config w path opts) = Inr d
   \<Longrightarrow> makeJiraRequest tr path opts w =
       (Return (if http_method (request_config w path opts) = JStr (str ''DELETE'')
                then Success JNull else Success d),
        w\<lparr>calls := calls w @ [request_config w path opts]\<rparr>)"
  by (simp add: makeJiraRequest_def Let_def)

lemma calls_makeJiraRequest:
  "calls (snd (makeJiraRequest tr path opts w)) = calls w @ [request_config w path opts]"
  by (simp add: snd_makeJiraRequest)

lemma trim_units_BTS: "trim_units (str ''BTS'') = str ''BTS''"
  by (simp add: trim_units_def str_def is_space_unit_def)

lemma getProject_BTS:
  "getProject tr (JStr (str ''BTS'')) w =
     makeJiraRequest tr (str ''/project/BTS'') no_options w"
proof -
  have "str ''/project/'' @ str ''BTS'' = str ''/project/BTS''"
    by (simp add: str_def)
  then show ?thesis
    by (simp add: getProject_def bind_def lift_def trim_units_BTS)
qed

subsection \<open>Required arguments\<close>

lemma getProject_blank:
  "blank k \<Longrightarrow>
     getProject tr k w = (Return (Failure (JStr (str ''Project key is required''))), w)"
  by (auto simp: blank_def getProject_def ret_def bind_lift_Return split: jsval.splits)

lemma getIssuesList_blank:
  "blank k \<Longrightarrow>
     getIssuesList tr k n w = (Return (Failure (JStr (str ''Project key is required''))), w)"
  by (auto simp: blank_def getIssuesList_def ret_def bind_lift_Return Let_def
      split: jsval.splits)

lemma getIssue_blank:
  "blank k \<Longrightarrow>
     getIssue tr k w =
       (Return (Failure (JStr (str ''Issue key is required (e.g., BTS-1)''))), w)"
  by (auto simp: blank_def getIssue_def ret_def bind_lift_Return split: jsval.splits)

text \<open>
  What holds of the validation: \<open>getProject\<close>, \<open>getIssuesList\<close> and \<open>getIssue\<close> answer a
  missing or blank key locally and leave the state as it is, so no request is made;
  \<open>deleteIssue\<close> and \<open>createIssue\<close> do so for a missing or empty argument.
\<close>

lemma required_arguments_checked:
  "(blank k \<longrightarrow>
      getProject tr k w = (Return (Failure (JStr (str ''Project key is required''))), w)
    \<and> getIssuesList tr k n w =
        (Return (Failure (JStr (str ''Project key is required''))), w)
    \<and> getIssue tr k w =
        (Return (Failure (JStr (str ''Issue key is required (e.g., BTS-1)''))), w))
   \<and> (\<not> truthy k \<longrightarrow>
      deleteIssue tr k w =
        (Return (Failure (JStr (str ''Issue key is required (e.g., BTS-1)''))), w))
   \<and> (\<not> truthy k \<or> \<not> truthy s \<longrightarrow>
      createIssue tr k s d t w =
        (Return (Failure (JStr (str ''Project key and summary are required''))), w))"
  by (auto simp: getProject_blank getIssuesList_blank getIssue_blank deleteIssue_def
      createIssue_def ret_def Let_def)

text \<open>
  C2 at a key and a summary of three spaces. \<open>deleteIssue\<close> does not trim its argument: it
  sends a DELETE request for the issue named by the three spaces. \<open>createIssue\<close> does not
  trim its summary: it goes on to the request that checks the project (and from there,
  if the project is found, to the creation request).
\<close>

theorem whitespace_argument_reaches_transport:
  "snd (deleteIssue tr (JStr (str ''   '')) w) =
     w\<lparr>calls := calls w @
        [\<lparr>url = str (baseURL w) @ str ''/rest/api/3/issue/   '',
          http_method = JStr (str ''DELETE''),
          username = str (email w), password = str (apiToken w),
          headers = [(''Accept'', ''application/json'')], data = JUndefined\<rparr>]\<rparr>
   \<and> (\<exists>cs. calls (snd (createIssue tr (JStr (str ''BTS'')) (JStr (str ''   ''))
                        JUndefined JUndefined w)) =
          calls w @
          \<lparr>url = str (baseURL w) @ str ''/rest/api/3/project/BTS'',
            http_method = JStr (str ''GET''),
            username = str (email w), password = str (apiToken w),
            headers = [(''Accept'', ''application/json'')], data = JUndefined\<rparr> # cs)"
proof
  have u: "str ''/rest/api/3'' @ str ''/issue/'' @ str ''   '' = str ''/rest/api/3/issue/   ''"
    by (simp add: str_def)
  show "snd (deleteIssue tr (JStr (str ''   '')) w) =
     w\<lparr>calls := calls w @
        [\<lparr>url = str (baseURL w) @ str ''/rest/api/3/issue/   '',
          http_method = JStr (str ''DELETE''),
          username = str (email w), password = str (apiToken w),
          headers = [(''Accept'', ''application/json'')], data = JUndefined\<rparr>]\<rparr>"
    by (simp add: deleteIssue_def bind_lift_Return snd_makeJiraRequest request_config_delete u)
next
  let ?c = "\<lparr>url = str (baseURL w) @ str ''/rest/api/3/project/BTS'',
          http_method = JStr (str ''GET''),
          username = str (email w), password = str (apiToken w),
          headers = [(''Accept'', ''application/json'')], data = JUndefined\<rparr>"
  let ?w1 = "w\<lparr>calls := calls w @ [?c]\<rparr>"
  let ?create = "createIssue tr (JStr (str ''BTS'')) (JStr (str ''   '')) JUndefined JUndefined w"
  have u: "str ''/rest/api/3'' @ str ''/project/BTS'' = str ''/rest/api/3/project/BTS''"
    by (simp add: str_def)
  have "snd (getProject tr (JStr (str ''BTS'')) w) = ?w1"
    by (simp add: getProject_BTS snd_makeJiraRequest request_config_get u)
  then obtain r where r: "getProject tr (JStr (str ''BTS'')) w = (r, ?w1)"
    by (cases "getProject tr (JStr (str ''BTS'')) w") simp
  have t: "truthy (JStr (str ''BTS''))" "truthy (JStr (str ''   ''))"
    by simp_all
  show "\<exists>cs. calls (snd ?create) = calls w @ ?c # cs"
  proof (cases r)
    case (Return res)
    show ?thesis
    proof (cases res)
      case (Failure e)
      then have "snd ?create = ?w1"
        using r Return
        by (cases "toString e")
           (simp_all add: createIssue_def Let_def bind_Return bind_lift_Return
              bind_lift_Throw ret_def bind_def lift_def)
      then show ?thesis
        by simp
    next
      case (Success d)
      then show ?thesis
        using r Return
        by (simp add: createIssue_def Let_def bind_Return bind_lift_Return
            formatDescriptionForJira_def default_param_def calls_makeJiraRequest)
    qed
  next
    case (Throw ex)
    then have "snd ?create = ?w1"
      using r by (simp add: createIssue_def Let_def bind_Throw)
    then show ?thesis
      by simp
  next
    case Hang
    then have "snd ?create = ?w1"
      using r by (simp add: createIssue_def Let_def bind_Hang)
    then show ?thesis
      by simp
  qed
qed

theorem whitespace_argument_reaches_transport_witness:
  "calls (snd (deleteIssue (\<lambda>history request. Inr JNull) (JStr (str ''   '')) (initial []))) =
     [\<lparr>url = str ''/rest/api/3/issue/   '', http_method = JStr (str ''DELETE''),
       username = [], password = [],
       headers = [(''Accept'', ''application/json'')], data = JUndefined\<rparr>]"
  using whitespace_argument_reaches_transport [of "\<lambda>history request. Inr JNull" "initial []"]
  by (simp add: initial_def)

subsection \<open>The project check of \<open>createIssue\<close>\<close>

lemma getProject_calls:
  assumes "getProject tr k w = (r, w1)"
  shows "w1 = w \<or> (\<exists>p. w1 = w\<lparr>calls := calls w @ [request_config w p no_options]\<rparr>)"
proof (cases "truthy k \<and> (\<exists>s. k = JStr s \<and> trim_units s \<noteq> [])")
  case True
  then obtain s where "k = JStr s" "trim_units s \<noteq> []" "truthy k"
    by blast
  then have "getProject tr k w = makeJiraRequest tr (str ''/project/'' @ trim_units s) no_options w"
    by (simp add: getProject_def bind_lift_Return)
  then have "w1 = w\<lparr>calls := calls w @
      [request_config w (str ''/project/'' @ trim_units s) no_options]\<rparr>"
    using assms snd_makeJiraRequest [of tr "str ''/project/'' @ trim_units s" no_options w]
    by (metis snd_conv)
  then show ?thesis
    by blast
next
  case False
  then have "snd (getProject tr k w) = w"
    by (cases k) (auto simp: getProject_def ret_def bind_lift_Return bind_lift_Throw)
  then show ?thesis
    using assms by simp
qed

lemma getProject_returns_string:
  assumes "truthy k" and "getProject tr k w = (Return r, w1)"
  shows "\<exists>s. k = JStr s"
  using assms
  by (cases k) (simp_all add: getProject_def bind_lift_Throw)

lemma createIssue_check_failed:
  assumes "truthy (JStr key)" and "truthy summary"
    and "getProject tr (JStr key) w = (Return (Failure e), w1)"
  shows "createIssue tr (JStr key) summary description issueType w =
     (obind (toString e) (\<lambda>error_text. Return (Failure (JStr
        (str (''Project '' @ apostrophe) @ key
          @ str (apostrophe @ '' not found or you don't have access to it. '')
          @ error_text)))), w1)"
  using assms
  by (cases "toString e")
     (simp_all add: createIssue_def Let_def bind_Return bind_lift_Return ret_def bind_def
        lift_def)

text \<open>
  C5. When \<open>createIssue\<close> is called with a project key and a summary that are not missing,
  it first runs \<open>getProject\<close> on the key; if that check returns a failure, the key is a
  string and \<open>createIssue\<close> leaves the state as the check left it: beyond the at most one
  GET request of the check, no request is made, so none that would create the issue. Its
  result embeds the error of the check in the template
  \<open>Project '{projectKey}' not found or you don't have access to it. {error}\<close>: when that
  error is a string, \<open>createIssue\<close> returns a failure whose error is the text before the
  last placeholder followed by the error of the check as it is; in general the error is
  converted to a string, and \<open>createIssue\<close> throws if that conversion does.
\<close>

theorem createIssue_project_check_fails:
  assumes "truthy projectKey" and "truthy summary"
    and "getProject tr projectKey w = (Return (Failure e), w1)"
  shows "\<exists>key. projectKey = JStr key
     \<and> createIssue tr projectKey summary description issueType w =
         (obind (toString e) (\<lambda>error_text. Return (Failure (JStr
            (str (''Project '' @ apostrophe) @ key
              @ str (apostrophe @ '' not found or you don't have access to it. '')
              @ error_text)))), w1)
     \<and> (\<forall>inner. e = JStr inner \<longrightarrow>
         createIssue tr projectKey summary description issueType w =
           (Return (Failure (JStr
              (str (''Project '' @ apostrophe) @ key
                @ str (apostrophe @ '' not found or you don't have access to it. '')
                @ inner))), w1))
     \<and> (w1 = w \<or> (\<exists>path. w1 = w\<lparr>calls := calls w @
          [\<lparr>url = str (baseURL w) @ str ''/rest/api/3'' @ path,
            http_method = JStr (str ''GET''),
            username = str (email w), password = str (apiToken w),
            headers = [(''Accept'', ''application/json'')], data = JUndefined\<rparr>]\<rparr>))"
proof -
  obtain key where k: "projectKey = JStr key"
    using getProject_returns_string [OF assms(1,3)] by blast
  show ?thesis
    using createIssue_check_failed [of key summary tr w e w1 description issueType]
      getProject_calls [OF assms(3)] assms k
    by (auto simp: request_config_get)
qed

theorem createIssue_project_check_fails_witness:
  "createIssue
     (\<lambda>history request. Inl (error_js \<lparr>f_reply = Some \<lparr>r_status = 404, r_body = None\<rparr>,
        f_message = Some ''Request failed with status code 404''\<rparr>))
     (JStr (str ''BTS'')) (JStr (str ''Fix login'')) (JStr []) JUndefined (initial [])
   = (Return (Failure (JStr (str (''Project '' @ apostrophe) @ str ''BTS''
        @ str (apostrophe @ '' not found or you don't have access to it. '')
        @ str ''Resource not found. Please check the issue key or project key.''))),
      (initial [])\<lparr>calls := [\<lparr>url = str ''/rest/api/3/project/BTS'',
          http_method = JStr (str ''GET''),
          username = [], password = [],
          headers = [(''Accept'', ''application/json'')], data = JUndefined\<rparr>]\<rparr>)"
proof -
  let ?f = "\<lparr>f_reply = Some \<lparr>r_status = 404, r_body = None\<rparr>,
        f_message = Some ''Request failed with status code 404''\<rparr>"
  let ?tr = "\<lambda>history request. Inl (error_js ?f) :: js_error + jsval"
  let ?w1 = "(initial [])\<lparr>calls := [\<lparr>url = str ''/rest/api/3/project/BTS'',
          http_method = JStr (str ''GET''), username = [], password = [],
          headers = [(''Accept'', ''application/json'')], data = JUndefined\<rparr>]\<rparr>"
  have m: "error_message ?f = ''Resource not found. Please check the issue key or project key.''"
    by (simp add: error_message_def later_branches_def errorMessages_of_def errors_of_def
        status_of_def body_of_def)
  have u: "str ''/rest/api/3'' @ str ''/project/BTS'' = str ''/rest/api/3/project/BTS''"
    by (simp add: str_def)
  have g: "getProject ?tr (JStr (str ''BTS'')) (initial []) =
      (Return (Failure (JStr
         (str ''Resource not found. Please check the issue key or project key.''))),
       ?w1)"
    by (simp add: getProject_BTS makeJiraRequest_rejected formatJiraError_error_js m
        request_config_get initial_def u)
  show ?thesis
    using createIssue_project_check_fails
      [OF _ _ g, of "JStr (str ''Fix login'')" "JStr []" JUndefined]
    by simp
qed

subsection \<open>The request of \<open>getIssuesList\<close>\<close>

lemma encodeURIComponent_well_formed:
  "list_all (\<lambda>c. c < 55296 \<or> 57343 < c) s \<Longrightarrow> \<exists>r. encodeURIComponent s = Return r"
proof (induction s)
  case Nil
  show ?case by simp
next
  case (Cons c cs)
  then obtain r where "encodeURIComponent cs = Return r"
    by auto
  then show ?case
    using Cons.prems by auto
qed

lemma list_all_trim_units: "list_all P s \<Longrightarrow> list_all P (trim_units s)"
  by (auto simp: trim_units_def list_all_iff dest!: set_dropWhileD)

lemma list_all_str: "list_all (\<lambda>c. c < 55296 \<or> 57343 < c) (str s)"
proof -
  have "of_char c < (55296 :: nat)" for c :: char
    using nat_of_char_less_256 [of c] by linarith
  then show ?thesis
    by (simp add: str_def list_all_iff)
qed

lemma getIssuesList_path:
  assumes "trim_units k \<noteq> []"
  shows "getIssuesList tr (JStr k) maxResults w =
     bind (lift (encodeURIComponent
                   (str ''project = '' @ trim_units k @ str '' ORDER BY created ASC'')))
       (\<lambda>encoded.
          bind (lift (toString (default_param maxResults (JNum ''50''))))
            (\<lambda>maxResults_text.
               makeJiraRequest tr
                 (str ''/search?jql='' @ encoded @ str ''&maxResults='' @ maxResults_text)
                 no_options)) w"
proof -
  have "k \<noteq> []"
    using assms by (auto simp: trim_units_def)
  then show ?thesis
    using assms by (simp add: getIssuesList_def Let_def bind_lift_Return)
qed

lemma encodeURIComponent_BTS:
  "encodeURIComponent (str ''project = '' @ trim_units (str ''BTS'')
      @ str '' ORDER BY created ASC'')
   = Return (str ''project%20%3D%20BTS%20ORDER%20BY%20created%20ASC'')"
  unfolding trim_units_BTS
  by (simp add: str_def unreserved_def escape_def percent_def utf8_def)

text \<open>
  C8, as the specification words it, fails: a key that consists of a single high
  surrogate is not blank, yet \<open>getIssuesList\<close> makes no request for it, because
  \<open>encodeURIComponent\<close> throws on the query.
\<close>

theorem lone_surrogate_counterexample:
  "\<not> blank (JStr [55296])
   \<and> getIssuesList example_jira (JStr [55296]) JUndefined (initial []) =
       (Throw URIError, initial [])"
  by (simp add: blank_def trim_units_def is_space_unit_def getIssuesList_def Let_def
      bind_lift_Return bind_lift_Throw str_def unreserved_def escape_def percent_def utf8_def)

text \<open>
  C8, amended. For every key that is a string and not blank after trimming,
  \<open>getIssuesList\<close> encodes the query \<open>project = \<close>, the trimmed key, \<open> ORDER BY created ASC\<close>
  with \<open>encodeURIComponent\<close> and converts \<open>maxResults\<close>, which is 50 when the argument is
  left out, to a string. When both return, it makes the request of \<open>makeJiraRequest\<close>
  for the path \<open>/search?jql=\<close>, the encoded query, \<open>&maxResults=\<close>, the converted number:
  exactly one GET request, for that path under the base URL. When the encoding or the
  conversion throws, \<open>getIssuesList\<close> throws the same exception and makes no request. The
  encoding returns for every key without surrogate code units.
\<close>

theorem getIssuesList_request:
  assumes "trim_units k \<noteq> []"
  shows
    "(encodeURIComponent (str ''project = '' @ trim_units k @ str '' ORDER BY created ASC'')
        = Return encoded
      \<and> toString (default_param maxResults (JNum ''50'')) = Return t \<longrightarrow>
        getIssuesList tr (JStr k) maxResults w =
          makeJiraRequest tr (str ''/search?jql='' @ encoded @ str ''&maxResults='' @ t)
            no_options w
        \<and> snd (getIssuesList tr (JStr k) maxResults w) =
            w\<lparr>calls := calls w @
              [\<lparr>url = str (baseURL w) @ str ''/rest/api/3'' @ str ''/search?jql='' @ encoded
                   @ str ''&maxResults='' @ t,
                http_method = JStr (str ''GET''),
                username = str (email w), password = str (apiToken w),
                headers = [(''Accept'', ''application/json'')], data = JUndefined\<rparr>]\<rparr>)
     \<and> (encodeURIComponent (str ''project = '' @ trim_units k @ str '' ORDER BY created ASC'')
          = Throw ex \<longrightarrow>
        getIssuesList tr (JStr k) maxResults w = (Throw ex, w))
     \<and> (encodeURIComponent (str ''project = '' @ trim_units k @ str '' ORDER BY created ASC'')
          = Return encoded
        \<and> toString (default_param maxResults (JNum ''50'')) = Throw ex \<longrightarrow>
        getIssuesList tr (JStr k) maxResults w = (Throw ex, w))
     \<and> (list_all (\<lambda>c. c < 55296 \<or> 57343 < c) k \<longrightarrow>
        (\<exists>r. encodeURIComponent
                (str ''project = '' @ trim_units k @ str '' ORDER BY created ASC'')
              = Return r))
     \<and> toString (default_param JUndefined (JNum ''50'')) = Return (str ''50'')
     \<and> toString (default_param (JNum n) (JNum ''50'')) = Return (str n)"
proof -
  have wf: "\<exists>r. encodeURIComponent
                (str ''project = '' @ trim_units k @ str '' ORDER BY created ASC'')
              = Return r"
    if "list_all (\<lambda>c. c < 55296 \<or> 57343 < c) k"
    using that list_all_trim_units [of _ k] list_all_str
    by (intro encodeURIComponent_well_formed) simp
  show ?thesis
    unfolding getIssuesList_path [OF assms]
    using wf
    by (simp add: bind_lift_Return bind_lift_Throw snd_makeJiraRequest request_config_get
        default_param_def)
qed

theorem getIssuesList_request_witness:
  "snd (getIssuesList example_jira (JStr (str ''BTS'')) JUndefined
          (setCredentials ''alice@co'' ''tok'' (initial []))) =
     (setCredentials ''alice@co'' ''tok'' (initial []))\<lparr>calls :=
        [\<lparr>url = str ''https://alice.atlassian.net'' @ str ''/rest/api/3''
             @ str ''/search?jql=''
             @ str ''project%20%3D%20BTS%20ORDER%20BY%20created%20ASC''
             @ str ''&maxResults='' @ str ''50'',
          http_method = JStr (str ''GET''),
          username = str ''alice@co'', password = str ''tok'',
          headers = [(''Accept'', ''application/json'')], data = JUndefined\<rparr>]\<rparr>"
proof -
  let ?w = "setCredentials ''alice@co'' ''tok'' (initial [])"
  have b: "baseURL ?w = ''https://alice.atlassian.net''" "email ?w = ''alice@co''"
    "apiToken ?w = ''tok''" "calls ?w = []"
    by (simp_all add: setCredentials_def generateBaseURLFromEmail_def str_includes_def
        initial_def)
  have n: "trim_units (str ''BTS'') \<noteq> []"
    by (simp add: trim_units_BTS)
  have t: "toString (default_param JUndefined (JNum ''50'')) = Return (str ''50'')"
    by (simp add: default_param_def)
  show ?thesis
    using getIssuesList_request
      [OF n, of "str ''project%20%3D%20BTS%20ORDER%20BY%20created%20ASC''" JUndefined
         "str ''50''" example_jira ?w,
       THEN conjunct1, THEN mp, OF conjI [OF encodeURIComponent_BTS t], THEN conjunct2]
    by (simp only: b append_Nil)
qed

subsection \<open>\<open>checkCredentials\<close>\<close>

lemma getCurrentUser_request:
  "getCurrentUser tr w =
     (case tr (calls w) (request_config w (str ''/myself'') no_options) of
        Inl e \<Rightarrow> obind (formatJiraError e) (\<lambda>formatted. Return (Failure formatted))
      | Inr d \<Rightarrow> Return (Success d),
      w\<lparr>calls := calls w @ [request_config w (str ''/myself'') no_options]\<rparr>)"
  by (simp add: getCurrentUser_def makeJiraRequest_def Let_def request_config_get
      split: sum.splits)

lemma getProjectsList_request:
  "getProjectsList tr w =
     (case tr (calls w) (request_config w (str ''/project'') no_options) of
        Inl e \<Rightarrow> obind (formatJiraError e) (\<lambda>formatted. Return (Failure formatted))
      | Inr d \<Rightarrow> Return (Success d),
      w\<lparr>calls := calls w @ [request_config w (str ''/project'') no_options]\<rparr>)"
  by (simp add: getProjectsList_def makeJiraRequest_def Let_def request_config_get
      split: sum.splits)

lemma checkCredentials_unset:
  "email w = [] \<or> apiToken w = [] \<Longrightarrow> checkCredentials tr w = (Return False, w)"
  by (auto simp: checkCredentials_def)

lemma checkCredentials_user_fails:
  assumes "email w \<noteq> []" and "apiToken w \<noteq> []"
    and "tr (calls w) (request_config w (str ''/myself'') no_options) = Inl e"
  shows "checkCredentials tr w =
     (obind (formatJiraError e) (\<lambda>formatted. Return False),
      w\<lparr>calls := calls w @ [request_config w (str ''/myself'') no_options]\<rparr>)"
  using assms
  by (cases "formatJiraError e")
     (simp_all add: checkCredentials_def bind_def getCurrentUser_request ret_def)

lemma checkCredentials_projects_fail:
  assumes "email w \<noteq> []" and "apiToken w \<noteq> []"
    and "tr (calls w) (request_config w (str ''/myself'') no_options) = Inr d"
    and "tr (calls w @ [request_config w (str ''/myself'') no_options])
           (request_config w (str ''/project'') no_options) = Inl e"
  shows "checkCredentials tr w =
     (obind (formatJiraError e) (\<lambda>formatted. Return False),
      w\<lparr>calls := calls w @ [request_config w (str ''/myself'') no_options,
                             request_config w (str ''/project'') no_options]\<rparr>)"
  using assms
  by (cases "formatJiraError e")
     (simp_all add: checkCredentials_def bind_def getCurrentUser_request
        getProjectsList_request ret_def)

lemma checkCredentials_projects:
  assumes "email w \<noteq> []" and "apiToken w \<noteq> []"
    and "tr (calls w) (request_config w (str ''/myself'') no_options) = Inr d"
    and "tr (calls w @ [request_config w (str ''/myself'') no_options])
           (request_config w (str ''/project'') no_options) = Inr p"
  shows "checkCredentials tr w =
     (if nullish p then Throw TypeError else Return (get p ''length'' \<noteq> JNum ''0''),
      w\<lparr>calls := calls w @ [request_config w (str ''/myself'') no_options,
                             request_config w (str ''/project'') no_options]\<rparr>)"
  using assms
  by (simp add: checkCredentials_def bind_def getCurrentUser_request
      getProjectsList_request ret_def lift_def member_def)

text \<open>
  C7, as the specification words it, fails: when both requests are answered and the
  answer to the project request is \<^verbatim>\<open>null\<close>, none of the four cases applies, yet
  \<open>checkCredentials\<close> does not return success: reading the length of \<^verbatim>\<open>null\<close> throws.
\<close>

theorem null_projects_counterexample:
  "getCurrentUser (\<lambda>history request. Inr JNull)
       (setCredentials ''alice@co'' ''tok'' (initial []))
     = (Return (Success JNull),
        (setCredentials ''alice@co'' ''tok'' (initial []))\<lparr>calls :=
           [request_config (setCredentials ''alice@co'' ''tok'' (initial []))
              (str ''/myself'') no_options]\<rparr>)
   \<and> fst (getProjectsList (\<lambda>history request. Inr JNull)
       ((setCredentials ''alice@co'' ''tok'' (initial []))\<lparr>calls :=
           [request_config (setCredentials ''alice@co'' ''tok'' (initial []))
              (str ''/myself'') no_options]\<rparr>))
     = Return (Success JNull)
   \<and> fst (checkCredentials (\<lambda>history request. Inr JNull)
       (setCredentials ''alice@co'' ''tok'' (initial [])))
     = Throw TypeError"
  by (simp add: getCurrentUser_request getProjectsList_request
      checkCredentials_projects [of _ _ JNull JNull] setCredentials_def initial_def)

text \<open>
  C7, amended. \<open>checkCredentials\<close> returns \<^verbatim>\<open>false\<close> without a request when the email or
  the token is empty. Otherwise it requests the current user. When the transport rejects
  that request, it makes no other request and returns \<^verbatim>\<open>false\<close>, provided that the
  formatting of the error returns; it throws what the formatting throws. When the
  request is answered, it requests the project list, and a rejection of that request has
  the same two outcomes. When both requests are answered, it throws a \<^verbatim>\<open>TypeError\<close> if
  the answer to the second is \<^verbatim>\<open>null\<close> or \<^verbatim>\<open>undefined\<close>, returns \<^verbatim>\<open>false\<close> if the length
  of that answer is zero, and returns \<^verbatim>\<open>true\<close> otherwise. So for the failures that
  the result normalizer describes and a project list that is an array, it returns
  \<^verbatim>\<open>false\<close> in the four cases of the specification and \<^verbatim>\<open>true\<close> in the remaining one.
\<close>

theorem checkCredentials_outcomes:
  "(email w = [] \<or> apiToken w = [] \<longrightarrow> checkCredentials tr w = (Return False, w))
   \<and> (email w \<noteq> [] \<and> apiToken w \<noteq> [] \<longrightarrow>
       (tr (calls w) (request_config w (str ''/myself'') no_options) = Inl e \<longrightarrow>
          checkCredentials tr w =
            (obind (formatJiraError e) (\<lambda>formatted. Return False),
             w\<lparr>calls := calls w @ [request_config w (str ''/myself'') no_options]\<rparr>))
     \<and> (tr (calls w) (request_config w (str ''/myself'') no_options) = Inl (error_js f) \<longrightarrow>
          checkCredentials tr w =
            (Return False,
             w\<lparr>calls := calls w @ [request_config w (str ''/myself'') no_options]\<rparr>))
     \<and> (tr (calls w) (request_config w (str ''/myself'') no_options) = Inr d \<longrightarrow>
          (tr (calls w @ [request_config w (str ''/myself'') no_options])
              (request_config w (str ''/project'') no_options) = Inl e \<longrightarrow>
             checkCredentials tr w =
               (obind (formatJiraError e) (\<lambda>formatted. Return False),
                w\<lparr>calls := calls w @ [request_config w (str ''/myself'') no_options,
                                       request_config w (str ''/project'') no_options]\<rparr>))
        \<and> (tr (calls w @ [request_config w (str ''/myself'') no_options])
              (request_config w (str ''/project'') no_options) = Inl (error_js f) \<longrightarrow>
             checkCredentials tr w =
               (Return False,
                w\<lparr>calls := calls w @ [request_config w (str ''/myself'') no_options,
                                       request_config w (str ''/project'') no_options]\<rparr>))
        \<and> (tr (calls w @ [request_config w (str ''/myself'') no_options])
              (request_config w (str ''/project'') no_options) = Inr p \<longrightarrow>
             checkCredentials tr w =
               (if nullish p then Throw TypeError
                else Return (get p ''length'' \<noteq> JNum ''0''),
                w\<lparr>calls := calls w @ [request_config w (str ''/myself'') no_options,
                                       request_config w (str ''/project'') no_options]\<rparr>))
        \<and> (tr (calls w @ [request_config w (str ''/myself'') no_options])
              (request_config w (str ''/project'') no_options) = Inr (JArr ps) \<longrightarrow>
             checkCredentials tr w =
               (Return (ps \<noteq> []),
                w\<lparr>calls := calls w @ [request_config w (str ''/myself'') no_options,
                                       request_config w (str ''/project'') no_options]\<rparr>))))"
  using checkCredentials_unset [of w tr]
    checkCredentials_user_fails [of w tr e]
    checkCredentials_user_fails [of w tr "error_js f"]
    checkCredentials_projects_fail [of w tr d e]
    checkCredentials_projects_fail [of w tr d "error_js f"]
    checkCredentials_projects [of w tr d p]
    checkCredentials_projects [of w tr d "JArr ps"]
  by (simp add: formatJiraError_error_js)

theorem checkCredentials_outcomes_witness:
  "checkCredentials (\<lambda>history request. Inr (JArr example_projects))
       (setCredentials ''alice@co'' ''tok'' (initial [])) =
     (Return True,
      (setCredentials ''alice@co'' ''tok'' (initial []))\<lparr>calls :=
         [request_config (setCredentials ''alice@co'' ''tok'' (initial []))
            (str ''/myself'') no_options,
          request_config (setCredentials ''alice@co'' ''tok'' (initial []))
            (str ''/project'') no_options]\<rparr>)
   \<and> checkCredentials (\<lambda>history request. Inr (JArr []))
       (setCredentials ''alice@co'' ''tok'' (initial [])) =
     (Return False,
      (setCredentials ''alice@co'' ''tok'' (initial []))\<lparr>calls :=
         [request_config (setCredentials ''alice@co'' ''tok'' (initial []))
            (str ''/myself'') no_options,
          request_config (setCredentials ''alice@co'' ''tok'' (initial []))
            (str ''/project'') no_options]\<rparr>)
   \<and> checkCredentials
       (\<lambda>history request. Inl (error_js
          \<lparr>f_reply = Some \<lparr>r_status = 401, r_body = None\<rparr>, f_message = None\<rparr>))
       (setCredentials ''alice@co'' ''tok'' (initial [])) =
     (Return False,
      (setCredentials ''alice@co'' ''tok'' (initial []))\<lparr>calls :=
         [request_config (setCredentials ''alice@co'' ''tok'' (initial []))
            (str ''/myself'') no_options]\<rparr>)
   \<and> checkCredentials (\<lambda>history request. Inr (JArr example_projects)) (initial []) =
       (Return False, initial [])"
proof -
  let ?w = "setCredentials ''alice@co'' ''tok'' (initial [])"
  let ?f = "\<lparr>f_reply = Some \<lparr>r_status = 401, r_body = None\<rparr>, f_message = None\<rparr>"
  have c: "email ?w \<noteq> []" "apiToken ?w \<noteq> []" "calls ?w = []"
    by (simp_all add: setCredentials_def initial_def)
  have e: "email (initial []) = []"
    by (simp add: initial_def)
  have n: "example_projects \<noteq> []"
    by (simp add: example_projects_def)
  show ?thesis
    using checkCredentials_outcomes
        [of ?w "\<lambda>history request. Inr (JArr example_projects)" "error_js ?f" ?f
           "JArr example_projects" "JArr example_projects" example_projects]
      checkCredentials_outcomes
        [of ?w "\<lambda>history request. Inr (JArr [])" "error_js ?f" ?f "JArr []" "JArr []" "[]"]
      checkCredentials_outcomes
        [of ?w "\<lambda>history request. Inl (error_js ?f)" "error_js ?f" ?f]
      checkCredentials_outcomes
        [of "initial []" "\<lambda>history request. Inr (JArr example_projects)"]
    by (simp add: c e n formatJiraError_error_js)
qed

subsection \<open>The session variables\<close>

lemma keeps_ret: "keeps_session (ret x)"
  by (simp add: keeps_session_def ret_def)

lemma keeps_lift: "keeps_session (lift r)"
  by (simp add: keeps_session_def lift_def)

lemma keeps_question: "keeps_session question"
  by (simp add: keeps_session_def question_def session_def split: list.splits)

lemma keeps_bind:
  assumes "keeps_session m" and "\<And>x. keeps_session (f x)"
  shows "keeps_session (bind m f)"
  unfolding keeps_session_def
proof
  fix w
  obtain r w' where m: "m w = (r, w')"
    by (cases "m w")
  have "session w' = session w"
    using assms(1) m by (auto simp: keeps_session_def dest: spec [of _ w])
  then show "session (snd (bind m f w)) = session w"
    using assms(2) m by (cases r) (auto simp: bind_def keeps_session_def)
qed

lemma keeps_try_catch:
  assumes "keeps_session m" and "keeps_session h"
  shows "keeps_session (try_catch m h)"
  unfolding keeps_session_def
proof
  fix w
  obtain r w' where m: "m w = (r, w')"
    by (cases "m w")
  have "session w' = session w"
    using assms(1) m by (auto simp: keeps_session_def dest: spec [of _ w])
  then show "session (snd (try_catch m h w)) = session w"
    using assms(2) m by (cases r) (auto simp: try_catch_def keeps_session_def)
qed

lemma keeps_makeJiraRequest: "keeps_session (makeJiraRequest tr path opts)"
  unfolding keeps_session_def
proof
  fix w
  show "session (snd (makeJiraRequest tr path opts w)) = session w"
    by (simp add: snd_makeJiraRequest session_def)
qed

lemma keeps_if:
  "(c \<Longrightarrow> keeps_session a) \<Longrightarrow> (\<not> c \<Longrightarrow> keeps_session b)
   \<Longrightarrow> keeps_session (if c then a else b)"
  by simp

lemma keeps_case_result:
  "(\<And>d. keeps_session (f d)) \<Longrightarrow> (\<And>e. keeps_session (g e))
   \<Longrightarrow> keeps_session (case r of Success d \<Rightarrow> f d | Failure e \<Rightarrow> g e)"
  by (cases r) simp_all

lemma keeps_case_option:
  "keeps_session a \<Longrightarrow> (\<And>x. keeps_session (f x))
   \<Longrightarrow> keeps_session (case v of None \<Rightarrow> a | Some x \<Rightarrow> f x)"
  by (cases v) simp_all

lemma keeps_case_jsval:
  "keeps_session a \<Longrightarrow> keeps_session b \<Longrightarrow> (\<And>x. keeps_session (c x))
   \<Longrightarrow> (\<And>x. keeps_session (d x)) \<Longrightarrow> (\<And>x. keeps_session (e x))
   \<Longrightarrow> (\<And>x. keeps_session (f x)) \<Longrightarrow> (\<And>x. keeps_session (g x))
   \<Longrightarrow> keeps_session (case v of JUndefined \<Rightarrow> a | JNull \<Rightarrow> b | JBool x \<Rightarrow> c x
        | JNum x \<Rightarrow> d x | JStr x \<Rightarrow> e x | JArr x \<Rightarrow> f x | JObj x \<Rightarrow> g x)"
  by (cases v) simp_all

lemmas keeps_intros = keeps_ret keeps_lift keeps_question keeps_bind keeps_try_catch
  keeps_makeJiraRequest keeps_if keeps_case_result keeps_case_option keeps_case_jsval



lemma keeps_getCurrentUser: "keeps_session (getCurrentUser tr)"
  by (simp add: getCurrentUser_def keeps_makeJiraRequest)

lemma keeps_getProjectsList: "keeps_session (getProjectsList tr)"
  by (simp add: getProjectsList_def keeps_makeJiraRequest)

lemma keeps_getProject: "keeps_session (getProject tr k)"
  unfolding getProject_def by (intro keeps_intros)

lemma keeps_getIssuesList: "keeps_session (getIssuesList tr k n)"
  unfolding getIssuesList_def Let_def by (intro keeps_intros)

lemma keeps_getIssue: "keeps_session (getIssue tr k)"
  unfolding getIssue_def by (intro keeps_intros)

lemma keeps_createIssue: "keeps_session (createIssue tr k s d t)"
  unfolding createIssue_def Let_def by (intro keeps_intros keeps_getProject)

lemma keeps_deleteIssue: "keeps_session (deleteIssue tr k)"
  unfolding deleteIssue_def by (intro keeps_intros)

lemma keeps_selectProject: "keeps_session (selectProject tr)"
  unfolding selectProject_def Let_def by (intro keeps_intros keeps_getProjectsList)

lemma keeps_selectIssueFromList: "keeps_session (selectIssueFromList issues k)"
  unfolding selectIssueFromList_def Let_def by (intro keeps_intros)

lemma keeps_selectIssueFromProject: "keeps_session (selectIssueFromProject tr)"
  unfolding selectIssueFromProject_def
  by (intro keeps_intros keeps_selectProject keeps_getIssuesList keeps_selectIssueFromList)

lemma keeps_displayIssue: "keeps_session (displayIssue tr k)"
  unfolding displayIssue_def by (intro keeps_intros keeps_getIssue)

lemma keeps_selectAndDisplayIssue: "keeps_session (selectAndDisplayIssue tr)"
  unfolding selectAndDisplayIssue_def
  by (intro keeps_intros keeps_selectIssueFromProject keeps_displayIssue)

lemma keeps_createNewIssue: "keeps_session (createNewIssue tr)"
  unfolding createNewIssue_def by (intro keeps_intros keeps_selectProject keeps_createIssue)

lemma keeps_deleteSelectedIssue: "keeps_session (deleteSelectedIssue tr)"
  unfolding deleteSelectedIssue_def
  by (intro keeps_intros keeps_selectIssueFromProject keeps_deleteIssue)

lemma keeps_mainMenu_pass: "keeps_session (mainMenu_pass tr)"
  unfolding mainMenu_pass_def
  by (intro keeps_intros keeps_selectAndDisplayIssue keeps_createNewIssue
        keeps_deleteSelectedIssue)

lemma keeps_checkCredentials: "keeps_session (checkCredentials tr)"
proof -
  have "keeps_session (bind (getCurrentUser tr) (\<lambda>userResult.
        case userResult of
          Failure error \<Rightarrow> ret False
        | Success _ \<Rightarrow>
            bind (getProjectsList tr) (\<lambda>projectsResult.
              case projectsResult of
                Failure error \<Rightarrow> ret False
              | Success projects \<Rightarrow>
                  bind (lift (member projects ''length'')) (\<lambda>len.
                    if len = JNum ''0'' then ret False else ret True))))"
    by (intro keeps_intros keeps_getCurrentUser keeps_getProjectsList)
  then show ?thesis
    by (simp add: keeps_session_def checkCredentials_def)
qed

lemma keeps_sessionD: "keeps_session m \<Longrightarrow> session (snd (m w)) = session w"
  by (simp add: keeps_session_def)

lemma session_setCredentials:
  "session (setCredentials e t w) = (e, t, generateBaseURLFromEmail e)"
  by (simp add: session_def setCredentials_def)

lemma credentials_only_keeps: "keeps_session m \<Longrightarrow> credentials_only m"
  by (simp add: keeps_session_def credentials_only_def)

lemma credentials_only_bind:
  assumes "credentials_only m" and "\<And>x. credentials_only (f x)"
  shows "credentials_only (bind m f)"
  unfolding credentials_only_def
proof
  fix w
  obtain r w' where m: "m w = (r, w')"
    by (cases "m w")
  have 1: "session w' = session w \<or> (\<exists>e t. session w' = (e, t, generateBaseURLFromEmail e))"
    using assms(1) m
    by (auto simp: credentials_only_def session_setCredentials dest: spec [of _ w])
  show "session (snd (bind m f w)) = session w
      \<or> (\<exists>e t. session (snd (bind m f w)) = session (setCredentials e t w))"
  proof (cases r)
    case (Return x)
    have "session (snd (f x w')) = session w'
      \<or> (\<exists>e t. session (snd (f x w')) = (e, t, generateBaseURLFromEmail e))"
      using assms(2) [of x]
      by (auto simp: credentials_only_def session_setCredentials dest: spec [of _ w'])
    then show ?thesis
      using 1 m Return by (auto simp: bind_def session_setCredentials)
  next
    case (Throw ex)
    then show ?thesis
      using 1 m by (auto simp: bind_def session_setCredentials)
  next
    case Hang
    then show ?thesis
      using 1 m by (auto simp: bind_def session_setCredentials)
  qed
qed

lemma credentials_only_after_setCredentials:
  "keeps_session m \<Longrightarrow> credentials_only (\<lambda>w. m (setCredentials e t w))"
  unfolding credentials_only_def keeps_session_def by blast

lemma credentials_only_useEnvCredentials: "credentials_only (useEnvCredentials tr environment)"
proof -
  have k: "keeps_session (bind (checkCredentials tr) (\<lambda>isValid.
                 if \<not> isValid then ret False else ret True))"
    by (intro keeps_intros keeps_checkCredentials)
  show ?thesis
    unfolding credentials_only_def
  proof
    fix w
    show "session (snd (useEnvCredentials tr environment w)) = session w \<or>
         (\<exists>e t. session (snd (useEnvCredentials tr environment w)) =
                session (setCredentials e t w))"
      using keeps_sessionD [OF k]
      by (auto simp: useEnvCredentials_def split: option.splits)
  qed
qed

lemma credentials_only_enterCredentialsManually:
  "credentials_only (enterCredentialsManually tr)"
proof -
  have k: "keeps_session (bind (checkCredentials tr) (\<lambda>isValid.
                    if isValid then ret True else ret False))"
    by (intro keeps_intros keeps_checkCredentials)
  show ?thesis
    unfolding enterCredentialsManually_def
    by (intro credentials_only_bind credentials_only_keeps [OF keeps_question]
        credentials_only_keeps [OF keeps_ret] credentials_only_after_setCredentials [OF k]
        | simp only: if_split | rule conjI impI)+
qed

lemma credentials_only_setupMenu_pass: "credentials_only (setupMenu_pass tr environment)"
proof -
  have r: "credentials_only (\<lambda>w. (Return (b \<and> email w \<noteq> [] \<and> apiToken w \<noteq> []), w))" for b
    by (simp add: credentials_only_def)
  show ?thesis
    unfolding setupMenu_pass_def
    by (intro credentials_only_bind credentials_only_keeps [OF keeps_question]
        credentials_only_keeps [OF keeps_ret] credentials_only_useEnvCredentials
        credentials_only_enterCredentialsManually r
        | simp only: if_split | rule conjI impI)+
qed

lemma generateBaseURLFromEmail_empty: "generateBaseURLFromEmail [] = []"
  by (simp add: generateBaseURLFromEmail_def)

lemma reachable_derived:
  "reachable tr environment w \<Longrightarrow> baseURL w = generateBaseURLFromEmail (email w)"
proof (induction rule: reachable.induct)
  case (at_start lines)
  show ?case
    by (simp add: initial_def generateBaseURLFromEmail_empty)
next
  case (after_setup_pass w r w')
  have "session w' = session w \<or> (\<exists>e t. session w' = (e, t, generateBaseURLFromEmail e))"
    using credentials_only_setupMenu_pass [of tr environment] after_setup_pass.hyps(2)
    by (auto simp: credentials_only_def session_setCredentials dest: spec [of _ w])
  then show ?case
    using after_setup_pass.IH by (auto simp: session_def)
next
  case (after_main_pass w r w')
  have "session w' = session w"
    using keeps_sessionD [OF keeps_mainMenu_pass, of tr w] after_main_pass.hyps(2) by simp
  then show ?case
    using after_main_pass.IH by (simp add: session_def)
qed

text \<open>
  C9. In every state that a run reaches, the base URL is the one derived from the stored
  email, which is empty for the empty email of the start; so it is empty or exactly
  \<open>generateBaseURLFromEmail\<close> of the email. The session starts with its three variables
  empty; \<open>setCredentials\<close> stores the email and the token it is given and the base URL
  derived from that email; every other function leaves the three variables as they are,
  and the functions of the setup menu change them only through \<open>setCredentials\<close>.
\<close>

theorem session_invariant:
  "(reachable tr environment w \<longrightarrow>
      baseURL w = [] \<or> baseURL w = generateBaseURLFromEmail (email w))
   \<and> session (initial lines) = ([], [], [])
   \<and> session (setCredentials e t w0) = (e, t, generateBaseURLFromEmail e)
   \<and> credentials_only (useEnvCredentials tr environment)
   \<and> credentials_only (enterCredentialsManually tr)
   \<and> credentials_only (setupMenu_pass tr environment)
   \<and> keeps_session (mainMenu_pass tr)
   \<and> keeps_session (checkCredentials tr)
   \<and> keeps_session (makeJiraRequest tr path opts)
   \<and> keeps_session (getCurrentUser tr)
   \<and> keeps_session (getProjectsList tr)
   \<and> keeps_session (getProject tr k)
   \<and> keeps_session (getIssuesList tr k n)
   \<and> keeps_session (getIssue tr k)
   \<and> keeps_session (createIssue tr k summary description issueType)
   \<and> keeps_session (deleteIssue tr k)
   \<and> keeps_session (selectProject tr)
   \<and> keeps_session (selectIssueFromProject tr)
   \<and> keeps_session (selectAndDisplayIssue tr)
   \<and> keeps_session (createNewIssue tr)
   \<and> keeps_session (deleteSelectedIssue tr)"
  using reachable_derived [of tr environment w]
  by (simp add: session_setCredentials credentials_only_useEnvCredentials
      credentials_only_enterCredentialsManually credentials_only_setupMenu_pass
      keeps_mainMenu_pass keeps_checkCredentials keeps_makeJiraRequest keeps_getCurrentUser
      keeps_getProjectsList keeps_getProject keeps_getIssuesList keeps_getIssue
      keeps_createIssue keeps_deleteIssue keeps_selectProject keeps_selectIssueFromProject
      keeps_selectAndDisplayIssue keeps_createNewIssue keeps_deleteSelectedIssue)
     (simp add: session_def initial_def)

theorem session_invariant_witness:
  "reachable (\<lambda>history request. Inr (JArr [JObj [(''key'', JStr (str ''BTS''))]]))
     \<lparr>JIRA_EMAIL = None, JIRA_API_TOKEN = None\<rparr>
     (snd (setupMenu_pass (\<lambda>history request. Inr (JArr [JObj [(''key'', JStr (str ''BTS''))]]))
        \<lparr>JIRA_EMAIL = None, JIRA_API_TOKEN = None\<rparr>
        (initial [''2'', ''alice@co'', ''tok''])))
   \<and> (baseURL (snd (setupMenu_pass
          (\<lambda>history request. Inr (JArr [JObj [(''key'', JStr (str ''BTS''))]]))
          \<lparr>JIRA_EMAIL = None, JIRA_API_TOKEN = None\<rparr>
          (initial [''2'', ''alice@co'', ''tok'']))) = []
      \<or> baseURL (snd (setupMenu_pass
          (\<lambda>history request. Inr (JArr [JObj [(''key'', JStr (str ''BTS''))]]))
          \<lparr>JIRA_EMAIL = None, JIRA_API_TOKEN = None\<rparr>
          (initial [''2'', ''alice@co'', ''tok''])))
        = generateBaseURLFromEmail (email (snd (setupMenu_pass
          (\<lambda>history request. Inr (JArr [JObj [(''key'', JStr (str ''BTS''))]]))
          \<lparr>JIRA_EMAIL = None, JIRA_API_TOKEN = None\<rparr>
          (initial [''2'', ''alice@co'', ''tok''])))))"
proof -
  let ?tr = "\<lambda>history request. Inr (JArr [JObj [(''key'', JStr (str ''BTS''))]]) :: js_error + jsval"
  let ?env = "\<lparr>JIRA_EMAIL = None, JIRA_API_TOKEN = None\<rparr>"
  let ?w = "snd (setupMenu_pass ?tr ?env (initial [''2'', ''alice@co'', ''tok'']))"
  have r: "reachable ?tr ?env ?w"
    by (rule after_setup_pass [OF at_start]) (rule surjective_pairing)
  show ?thesis
    using r session_invariant [of ?tr ?env ?w] by simp
qed

subsection \<open>Reading a number from a line\<close>

lemma take2_show_nat:
  assumes "take 2 (show_nat n) = [a, b]"
  shows "\<exists>d<10. b = digit_char d"
proof -
  have "b \<in> set (take 2 (show_nat n))"
    using assms by simp
  then have "b \<in> set (show_nat n)"
    by (rule in_set_takeD)
  then show ?thesis
    by (rule show_nat_decimal)
qed

lemma take2_not_hex: "take 2 (show_nat n) \<noteq> ''0x''" "take 2 (show_nat n) \<noteq> ''0X''"
proof -
  show "take 2 (show_nat n) \<noteq> ''0x''"
  proof
    assume "take 2 (show_nat n) = ''0x''"
    from take2_show_nat [OF this] obtain d where "d < 10" "CHR ''x'' = digit_char d"
      by blast
    then show False
      using digit_char_not_mark(3) [of d] by simp
  qed
  show "take 2 (show_nat n) \<noteq> ''0X''"
  proof
    assume "take 2 (show_nat n) = ''0X''"
    from take2_show_nat [OF this] obtain d where "d < 10" "CHR ''X'' = digit_char d"
      by blast
    then show False
      using digit_char_not_mark(4) [of d] by simp
  qed
qed

lemma parseInt_show_nat: "parseInt (show_nat n) = Some (int n)"
proof -
  let ?s = "show_nat n"
  obtain c cs where s: "?s = c # cs"
    using show_nat_nonempty [of n] by (cases ?s) auto
  then have "c \<in> set ?s" by simp
  then obtain d where d: "d < 10" "c = digit_char d"
    using show_nat_decimal by blast
  have 1: "dropWhile is_space ?s = ?s"
    using d not_space_digit_char [of d] by (simp add: s)
  have 2: "hd ?s \<noteq> CHR ''-''" "hd ?s \<noteq> CHR ''+''"
    using d digit_char_not_mark [of d] by (simp_all add: s)
  have "is_digit 10 x" if "x \<in> set ?s" for x
    using show_nat_decimal [OF that] is_digit_digit_char by blast
  then have 5: "takeWhile (is_digit 10) ?s = ?s"
    by (simp add: takeWhile_eq_all_conv)
  have 6: "?s \<noteq> []"
    by (rule show_nat_nonempty)
  show ?thesis
    unfolding parseInt_def Let_def 1
    by (simp add: 2 take2_not_hex 5 6 digits_value_show_nat)
qed

lemma chosen_index_show_nat:
  "chosen_index (show_nat k) n = (if 1 \<le> k \<and> k \<le> n then Some (k - 1) else None)"
  by (auto simp: chosen_index_def parseInt_show_nat nat_diff_distrib')

lemma chosen_index_range: "chosen_index line n = Some i \<Longrightarrow> i < n"
  by (auto simp: chosen_index_def split: option.splits if_splits)

lemma parseInt_examples:
  "parseInt ''1'' = Some 1" "parseInt ''2'' = Some 2" "parseInt ''3'' = Some 3"
  "parseInt ''0'' = Some 0" "parseInt ''4'' = Some 4"
  "parseInt ''abc'' = None" "parseInt [] = None" "parseInt ''2abc'' = Some 2"
  by (simp_all add: parseInt_def Let_def is_space_def is_space_unit_def is_digit_def
      digit_value_def digits_value_def)

lemma example_choices:
  "chosen_index ''1'' 3 = Some 0" "chosen_index ''2'' 3 = Some 1" "chosen_index ''3'' 3 = Some 2"
  "chosen_index ''0'' 3 = None" "chosen_index ''4'' 3 = None" "chosen_index ''abc'' 3 = None"
  "chosen_index [] 3 = None" "chosen_index ''2abc'' 3 = Some 1"
  "chosen_index ''1'' 2 = Some 0"
  by (simp_all add: chosen_index_def parseInt_examples)

subsection \<open>Rendering a list\<close>

lemma interpolate_cases: "interpolate v = Return () \<or> (\<exists>ex. interpolate v = Throw ex)"
  using toString_not_Hang [of v] by (cases "toString v") (simp_all add: interpolate_def)

lemma interpolate_JNum [simp]: "interpolate (JNum n) = Return ()"
  by (simp add: interpolate_def)

lemma interpolate_JStr [simp]: "interpolate (JStr s) = Return ()"
  by (simp add: interpolate_def)

lemma show_project_iff:
  "show_project p = Return () \<longleftrightarrow>
     \<not> nullish p \<and> printable (get p ''key'') \<and> printable (get p ''name'')"
  using interpolate_cases [of "get p ''key''"]
  by (auto simp: show_project_def member_def printable_def)

lemma show_issue_iff:
  "show_issue x = Return () \<longleftrightarrow>
     \<not> nullish x \<and> printable (get x ''key'') \<and> \<not> nullish (get x ''fields'')
     \<and> printable (get (get x ''fields'') ''summary'')"
  using interpolate_cases [of "get x ''key''"]
  by (auto simp: show_issue_def member_def printable_def)

lemma show_project_not_Hang: "show_project p \<noteq> Hang"
  using interpolate_cases [of "get p ''key''"] interpolate_cases [of "get p ''name''"]
  by (auto simp: show_project_def member_def)

lemma forEach_Return: "(\<And>x. x \<in> set xs \<Longrightarrow> f x = Return ()) \<Longrightarrow> forEach xs f = Return ()"
  by (induction xs) simp_all

lemma forEach_member:
  "forEach xs f = Return () \<Longrightarrow> x \<in> set xs \<Longrightarrow> f x = Return ()"
proof (induction xs)
  case Nil
  then show ?case by simp
next
  case (Cons y ys)
  then show ?case
    by (cases "f y") auto
qed

lemma question_line: "stdin w = line # rest \<Longrightarrow> question w = (Return line, w\<lparr>stdin := rest\<rparr>)"
  by (simp add: question_def)

lemma select_from_list:
  assumes "stdin w = line # rest" and "\<And>i. i < length xs \<Longrightarrow> g (xs ! i) = ret (xs ! i)"
  shows "bind question (\<lambda>choice.
           case parseInt choice of
             None \<Rightarrow> ret JNull
           | Some n \<Rightarrow>
               (if n - 1 < 0 \<or> n - 1 \<ge> int (length xs) then ret JNull
                else g (xs ! nat (n - 1)))) w
         = (Return (case chosen_index line (length xs) of None \<Rightarrow> JNull | Some i \<Rightarrow> xs ! i),
            w\<lparr>stdin := rest\<rparr>)"
proof -
  have q: "bind question F w = F line (w\<lparr>stdin := rest\<rparr>)" for F :: "string \<Rightarrow> jsval prog"
    using question_line [of w line rest, OF assms(1)] by (simp add: bind_def)
  show ?thesis
    unfolding q using assms(2)
    by (auto simp: chosen_index_def ret_def split: option.splits)
qed

lemma getProjectsList_resolved:
  "tr (calls w) (request_config w (str ''/project'') no_options) = Inr d \<Longrightarrow>
   getProjectsList tr w =
     (Return (Success d),
      w\<lparr>calls := calls w @ [request_config w (str ''/project'') no_options]\<rparr>)"
  by (simp add: getProjectsList_request)

lemma selectProject_listed:
  assumes "tr (calls w) (request_config w (str ''/project'') no_options) = Inr (JArr ps)"
    and "ps \<noteq> []" and "\<forall>p \<in> set ps. show_project p = Return ()"
    and "stdin w = line # rest"
  shows "selectProject tr w =
     (Return (case chosen_index line (length ps) of None \<Rightarrow> JNull | Some i \<Rightarrow> ps ! i),
      w\<lparr>calls := calls w @ [request_config w (str ''/project'') no_options],
        stdin := rest\<rparr>)"
proof -
  let ?w1 = "w\<lparr>calls := calls w @ [request_config w (str ''/project'') no_options]\<rparr>"
  have f: "forEach ps show_project = Return ()"
    using assms(3) by (intro forEach_Return) simp
  have s: "stdin ?w1 = line # rest"
    using assms(4) by simp
  have g: "bind (lift (show_project (ps ! i))) (\<lambda>_. ret (ps ! i)) = ret (ps ! i)"
    if "i < length ps" for i
    using that assms(3) by (simp add: bind_def lift_def ret_def fun_eq_iff)
  have gp: "getProjectsList tr w = (Return (Success (JArr ps)), ?w1)"
    using assms(1) by (rule getProjectsList_resolved [of tr w "JArr ps"])
  have b: "bind (getProjectsList tr) F w = F (Success (JArr ps)) ?w1"
    for F :: "result \<Rightarrow> jsval prog"
    using gp by (simp add: bind_def)
  have sel: "bind question (\<lambda>choice.
           case parseInt choice of
             None \<Rightarrow> ret JNull
           | Some n \<Rightarrow>
               (if n - 1 < 0 \<or> n - 1 \<ge> int (length ps) then ret JNull
                else bind (lift (show_project (ps ! nat (n - 1))))
                       (\<lambda>_. ret (ps ! nat (n - 1))))) ?w1
         = (Return (case chosen_index line (length ps) of None \<Rightarrow> JNull | Some i \<Rightarrow> ps ! i),
            ?w1\<lparr>stdin := rest\<rparr>)"
    using select_from_list
      [of ?w1 line rest ps "\<lambda>p. bind (lift (show_project p)) (\<lambda>_. ret p)", OF s g]
    by simp
  show ?thesis
    unfolding selectProject_def Let_def
    by (rule try_catch_Return) (simp add: b member_def bind_lift_Return assms(2) f sel)
qed

lemma selectProject_not_rendered:
  assumes "tr (calls w) (request_config w (str ''/project'') no_options) = Inr (JArr ps)"
    and "ps \<noteq> []" and "forEach ps show_project = Throw ex"
  shows "selectProject tr w =
     (Return JNull, w\<lparr>calls := calls w @ [request_config w (str ''/project'') no_options]\<rparr>)"
proof -
  let ?w1 = "w\<lparr>calls := calls w @ [request_config w (str ''/project'') no_options]\<rparr>"
  have gp: "getProjectsList tr w = (Return (Success (JArr ps)), ?w1)"
    using assms(1) by (rule getProjectsList_resolved [of tr w "JArr ps"])
  have b: "bind (getProjectsList tr) F w = F (Success (JArr ps)) ?w1"
    for F :: "result \<Rightarrow> jsval prog"
    using gp by (simp add: bind_def)
  have "selectProject tr w = ret JNull ?w1"
    unfolding selectProject_def Let_def
    by (rule try_catch_Throw [of _ _ ex])
       (simp add: b member_def bind_lift_Return bind_lift_Throw assms(2,3))
  then show ?thesis
    by (simp add: ret_def)
qed

lemma selectIssueFromList_listed:
  assumes "xs \<noteq> []" and "printable projectKey" and "\<forall>x \<in> set xs. show_issue x = Return ()"
    and "stdin w = line # rest"
  shows "selectIssueFromList (JArr xs) projectKey w =
     (Return (case chosen_index line (length xs) of None \<Rightarrow> JNull | Some i \<Rightarrow> xs ! i),
      w\<lparr>stdin := rest\<rparr>)"
proof -
  have f: "forEach xs show_issue = Return ()"
    using assms(3) by (intro forEach_Return) simp_all
  have p: "interpolate projectKey = Return ()"
    using assms(2) by (simp add: printable_def)
  show ?thesis
    unfolding selectIssueFromList_def Let_def
    by (simp add: member_def bind_lift_Return assms(1) f p
        select_from_list [of w line rest xs ret, OF assms(4)])
qed

lemma selectIssueFromList_key_not_printable:
  assumes "interpolate projectKey = Throw ex"
  shows "selectIssueFromList (JArr xs) projectKey w = (Throw ex, w)"
  unfolding selectIssueFromList_def Let_def
  by (simp add: member_def bind_lift_Return bind_lift_Throw assms)

subsection \<open>What a selection returns\<close>

lemma ro_ret: "P x \<Longrightarrow> returns_only P (ret x)"
  by (simp add: returns_only_def ret_def)

lemma ro_lift_Throw: "returns_only P (lift (Throw ex))"
  by (simp add: returns_only_def lift_def)

lemma ro_bind: "(\<And>x. returns_only P (f x)) \<Longrightarrow> returns_only P (bind m f)"
  unfolding returns_only_def bind_def
  by (auto split: prod.splits outcome.splits)

lemma ro_bind_lift:
  "(\<And>x. r = Return x \<Longrightarrow> returns_only P (f x)) \<Longrightarrow> returns_only P (bind (lift r) f)"
  unfolding returns_only_def bind_def lift_def
  by (auto split: prod.splits outcome.splits)

lemma ro_try_catch:
  "returns_only P m \<Longrightarrow> returns_only P h \<Longrightarrow> returns_only P (try_catch m h)"
  unfolding returns_only_def try_catch_def
  by (auto split: prod.splits outcome.splits)

lemma ro_if:
  "(c \<Longrightarrow> returns_only P a) \<Longrightarrow> (\<not> c \<Longrightarrow> returns_only P b)
   \<Longrightarrow> returns_only P (if c then a else b)"
  by simp

lemma ro_case_result:
  "(\<And>d. returns_only P (f d)) \<Longrightarrow> (\<And>e. returns_only P (g e))
   \<Longrightarrow> returns_only P (case r of Success d \<Rightarrow> f d | Failure e \<Rightarrow> g e)"
  by (cases r) simp_all

lemma ro_case_option:
  "returns_only P a \<Longrightarrow> (\<And>x. returns_only P (f x))
   \<Longrightarrow> returns_only P (case v of None \<Rightarrow> a | Some x \<Rightarrow> f x)"
  by (cases v) simp_all

lemma ro_case_jsval:
  "returns_only P a \<Longrightarrow> returns_only P b \<Longrightarrow> (\<And>x. returns_only P (c x))
   \<Longrightarrow> (\<And>x. returns_only P (d x)) \<Longrightarrow> (\<And>x. returns_only P (e x))
   \<Longrightarrow> (\<And>x. returns_only P (f x)) \<Longrightarrow> (\<And>x. returns_only P (g x))
   \<Longrightarrow> returns_only P (case v of JUndefined \<Rightarrow> a | JNull \<Rightarrow> b | JBool x \<Rightarrow> c x
        | JNum x \<Rightarrow> d x | JStr x \<Rightarrow> e x | JArr x \<Rightarrow> f x | JObj x \<Rightarrow> g x)"
  by (cases v) simp_all

lemmas ro_intros = ro_lift_Throw ro_bind_lift ro_bind ro_try_catch ro_if ro_case_result
  ro_case_option ro_case_jsval

lemma selectProject_rendered:
  "returns_only (\<lambda>v. v = JNull \<or> show_project v = Return ()) (selectProject tr)"
  unfolding selectProject_def Let_def
  by (intro ro_intros ro_ret) simp_all

lemma selectIssueFromList_rendered:
  "returns_only (\<lambda>v. v = JNull \<or> show_issue v = Return ()) (selectIssueFromList issues k)"
  unfolding selectIssueFromList_def Let_def
proof (intro ro_intros)
  fix len u1 u2 x u u3 line n
  assume "forEach x show_issue = Return u" and "\<not> (n - 1 < 0 \<or> int (length x) \<le> n - 1)"
  then show "returns_only (\<lambda>v. v = JNull \<or> show_issue v = Return ()) (ret (x ! nat (n - 1)))"
    by (intro ro_ret disjI2 forEach_member [of x show_issue]) auto
qed (simp_all add: ro_ret)

lemma selectIssueFromProject_rendered:
  "returns_only (\<lambda>v. v = JNull \<or> show_issue v = Return ()) (selectIssueFromProject tr)"
  unfolding selectIssueFromProject_def
  by (intro ro_intros selectIssueFromList_rendered ro_ret) simp_all

lemma selected_project_rendered:
  assumes "selectProject tr w = (Return v, w')" and "truthy v"
  shows "show_project v = Return ()"
proof -
  have "v = JNull \<or> show_project v = Return ()"
    using selectProject_rendered [of tr] assms(1)
    unfolding returns_only_def by blast
  then show ?thesis
    using assms(2) by auto
qed

lemma selected_issue_rendered:
  assumes "selectIssueFromProject tr w = (Return v, w')" and "truthy v"
  shows "show_issue v = Return ()"
proof -
  have "v = JNull \<or> show_issue v = Return ()"
    using selectIssueFromProject_rendered [of tr] assms(1)
    unfolding returns_only_def by blast
  then show ?thesis
    using assms(2) by auto
qed

lemma selectProject_aborts:
  assumes "selectProject tr w = (Return v, w')" and "\<not> truthy v"
  shows "selectIssueFromProject tr w = (Return JNull, w')"
    and "createNewIssue tr w = (Return (), w')"
  using assms
  by (simp_all add: selectIssueFromProject_def createNewIssue_def try_catch_def bind_def ret_def)

lemma selectIssueFromProject_aborts:
  assumes "selectIssueFromProject tr w = (Return v, w')" and "\<not> truthy v"
  shows "selectAndDisplayIssue tr w = (Return (), w')"
    and "deleteSelectedIssue tr w = (Return (), w')"
  using assms
  by (simp_all add: selectAndDisplayIssue_def deleteSelectedIssue_def try_catch_def bind_def
      ret_def)

lemma selectIssueFromProject_ends_with_list:
  assumes "selectProject tr w = (Return p, w1)" and "truthy p"
    and "getIssuesList tr (get p ''key'') JUndefined w1 = (Return (Success d), w2)"
    and "\<not> nullish d"
    and "selectIssueFromList (get d ''issues'') (get p ''key'') w2 = (Return v, w3)"
  shows "selectIssueFromProject tr w = (Return v, w3)"
proof -
  have "show_project p = Return ()"
    using assms(1,2) by (rule selected_project_rendered)
  then have "interpolate (get p ''key'') = Return ()"
    by (simp add: show_project_iff printable_def)
  then show ?thesis
    using assms
    by (simp add: selectIssueFromProject_def try_catch_def bind_def ret_def lift_def member_def)
qed

subsection \<open>The example server\<close>

lemma example_projects_rendered: "\<forall>p \<in> set example_projects. show_project p = Return ()"
  by (simp add: example_projects_def show_project_def member_def)

lemma example_issues_rendered: "\<forall>x \<in> set example_issues. show_issue x = Return ()"
  by (simp add: example_issues_def show_issue_def member_def)

lemma example_projects_request:
  "example_jira (calls (initial lines))
      (request_config (initial lines) (str ''/project'') no_options)
   = Inr (JArr example_projects)"
proof -
  have "str ''/rest/api/3'' @ str ''/project'' = str ''/rest/api/3/project''"
    by (simp add: str_def)
  then show ?thesis
    by (simp add: example_jira_def request_config_get initial_def)
qed

lemma example_selectProject:
  "selectProject example_jira (initial (line # rest)) =
     (Return (case chosen_index line (length example_projects) of
                None \<Rightarrow> JNull | Some i \<Rightarrow> example_projects ! i),
      (initial rest)\<lparr>calls := [hd example_listing]\<rparr>)"
proof -
  have n: "example_projects \<noteq> []"
    by (simp add: example_projects_def)
  have s: "stdin (initial (line # rest)) = line # rest"
    by (simp add: initial_def)
  have u: "str ''/rest/api/3'' @ str ''/project'' = str ''/rest/api/3/project''"
    by (simp add: str_def)
  show ?thesis
    unfolding selectProject_listed
      [of example_jira "initial (line # rest)" example_projects line rest,
       OF example_projects_request n example_projects_rendered s]
    by (simp add: request_config_get initial_def example_listing_def u)
qed

lemma example_getIssuesList:
  "getIssuesList example_jira (JStr (str ''BTS'')) JUndefined
     ((initial lines)\<lparr>calls := [hd example_listing]\<rparr>) =
   (Return (Success (JObj [(''issues'', JArr example_issues)])),
    (initial lines)\<lparr>calls := example_listing\<rparr>)"
proof -
  let ?w = "(initial lines)\<lparr>calls := [hd example_listing]\<rparr>"
  let ?path = "str ''/search?jql='' @ str ''project%20%3D%20BTS%20ORDER%20BY%20created%20ASC''
      @ str ''&maxResults='' @ str ''50''"
  have n: "trim_units (str ''BTS'') \<noteq> []"
    by (simp add: trim_units_BTS)
  have g: "getIssuesList example_jira (JStr (str ''BTS'')) JUndefined ?w =
      makeJiraRequest example_jira ?path no_options ?w"
    unfolding getIssuesList_path [OF n] encodeURIComponent_BTS
    by (simp add: bind_lift_Return default_param_def)
  have u: "str ''/rest/api/3'' @ ?path =
      str ''/rest/api/3/search?jql=project%20%3D%20BTS%20ORDER%20BY%20created%20ASC&maxResults=50''"
    by (simp add: str_def)
  have c': "request_config (initial lines) ?path no_options = example_listing ! 1"
    unfolding request_config_get u
    by (simp add: example_listing_def initial_def)
  have c: "request_config ?w ?path no_options = example_listing ! 1"
    using c' by simp
  have d: "url (example_listing ! 1) \<noteq> str ''/rest/api/3/project''"
    by (simp add: example_listing_def str_def)
  have r: "example_jira (calls ?w) (request_config ?w ?path no_options) =
      Inr (JObj [(''issues'', JArr example_issues)])"
    unfolding c using d by (simp add: example_jira_def)
  have m: "http_method (example_listing ! 1) \<noteq> JStr (str ''DELETE'')"
    by (simp add: example_listing_def)
  show ?thesis
    unfolding g makeJiraRequest_resolved
      [of example_jira ?w ?path no_options "JObj [(''issues'', JArr example_issues)]", OF r]
    using m by (simp add: c') (simp add: example_listing_def)
qed

lemma example_selectIssueFromProject:
  "selectIssueFromProject example_jira (initial (''1'' # ''1'' # rest)) =
     (Return (example_issues ! 0), (initial rest)\<lparr>calls := example_listing\<rparr>)"
proof -
  have n: "length example_projects = 3" "length example_issues = 2"
    "example_issues \<noteq> []"
    by (simp_all add: example_projects_def example_issues_def)
  have p: "selectProject example_jira (initial (''1'' # ''1'' # rest)) =
      (Return (example_projects ! 0), (initial (''1'' # rest))\<lparr>calls := [hd example_listing]\<rparr>)"
    unfolding example_selectProject by (simp add: n example_choices)
  have k: "get (example_projects ! 0) ''key'' = JStr (str ''BTS'')"
    "truthy (example_projects ! 0)"
    by (simp_all add: example_projects_def)
  have s: "stdin ((initial (''1'' # rest))\<lparr>calls := example_listing\<rparr>) = ''1'' # rest"
    by (simp add: initial_def)
  have l: "selectIssueFromList (get (JObj [(''issues'', JArr example_issues)]) ''issues'')
        (get (example_projects ! 0) ''key'')
        ((initial (''1'' # rest))\<lparr>calls := example_listing\<rparr>) =
      (Return (example_issues ! 0), (initial rest)\<lparr>calls := example_listing\<rparr>)"
    unfolding k
    using selectIssueFromList_listed
      [of example_issues "JStr (str ''BTS'')"
         "(initial (''1'' # rest))\<lparr>calls := example_listing\<rparr>" "''1''" rest,
       OF n(3) _ example_issues_rendered s]
    by (simp add: printable_def n example_choices initial_def)
  show ?thesis
    by (rule selectIssueFromProject_ends_with_list
          [of example_jira "initial (''1'' # ''1'' # rest)" "example_projects ! 0"
             "(initial (''1'' # rest))\<lparr>calls := [hd example_listing]\<rparr>"
             "JObj [(''issues'', JArr example_issues)]"
             "(initial (''1'' # rest))\<lparr>calls := example_listing\<rparr>"
             "example_issues ! 0" "(initial rest)\<lparr>calls := example_listing\<rparr>",
           OF p k(2) _ _ l])
       (simp_all add: k example_getIssuesList)
qed

subsection \<open>The confirmation of a deletion\<close>

lemma of_char_lower_char:
  "of_char (lower_char c) =
     (let n = of_char c :: nat
      in if (65 \<le> n \<and> n \<le> 90) \<or> (192 \<le> n \<and> n \<le> 222 \<and> n \<noteq> 215) then n + 32 else n)"
  by (auto simp: lower_char_def Let_def)

lemma lower_char_eq_iff:
  "lower_char c = d \<longleftrightarrow> of_char (lower_char c) = (of_char d :: nat)"
  by auto

lemma char_eq_iff_of_char: "c = d \<longleftrightarrow> of_char c = (of_char d :: nat)"
  by auto

lemma lower_char_yes:
  "lower_char c = CHR ''y'' \<longleftrightarrow> c = CHR ''y'' \<or> c = CHR ''Y''"
  "lower_char c = CHR ''e'' \<longleftrightarrow> c = CHR ''e'' \<or> c = CHR ''E''"
  "lower_char c = CHR ''s'' \<longleftrightarrow> c = CHR ''s'' \<or> c = CHR ''S''"
  unfolding lower_char_eq_iff char_eq_iff_of_char [of c] of_char_lower_char Let_def
  by auto

lemma toLowerCase_yes:
  "toLowerCase line = ''yes'' \<longleftrightarrow>
     line \<in> {''yes'', ''yeS'', ''yEs'', ''yES'', ''Yes'', ''YeS'', ''YEs'', ''YES''}"
proof -
  have "toLowerCase line = ''yes'' \<longleftrightarrow>
      (\<exists>a b c. line = [a, b, c] \<and> lower_char a = CHR ''y'' \<and> lower_char b = CHR ''e''
         \<and> lower_char c = CHR ''s'')"
    by (auto simp: toLowerCase_def map_eq_Cons_conv)
  then show ?thesis
    unfolding lower_char_yes by auto
qed

lemma deleteIssue_not_Hang: "fst (deleteIssue tr k w) \<noteq> Hang"
proof (cases "truthy k")
  case False
  then show ?thesis
    by (simp add: deleteIssue_def ret_def)
next
  case True
  then show ?thesis
    using toString_not_Hang [of k] makeJiraRequest_not_Hang
    by (cases "toString k") (simp_all add: deleteIssue_def bind_def lift_def)
qed

lemma deleteIssue_request:
  "k \<noteq> [] \<Longrightarrow> snd (deleteIssue tr (JStr k) w) =
     w\<lparr>calls := calls w @
       [\<lparr>url = str (baseURL w) @ str ''/rest/api/3/issue/'' @ k,
         http_method = JStr (str ''DELETE''),
         username = str (email w), password = str (apiToken w),
         headers = [(''Accept'', ''application/json'')], data = JUndefined\<rparr>]\<rparr>"
proof -
  have "str ''/rest/api/3'' @ str ''/issue/'' @ k = str ''/rest/api/3/issue/'' @ k"
    by (simp add: str_def)
  then show "k \<noteq> [] \<Longrightarrow> ?thesis"
    by (simp add: deleteIssue_def bind_lift_Return snd_makeJiraRequest request_config_delete)
qed

lemma deleteSelectedIssue_declined:
  assumes "selectIssueFromProject tr w = (Return selectedIssue, w1)" and "truthy selectedIssue"
    and "stdin w1 = confirmation # rest" and "toLowerCase confirmation \<noteq> ''yes''"
  shows "deleteSelectedIssue tr w = (Return (), w1\<lparr>stdin := rest\<rparr>)"
  using assms selected_issue_rendered [OF assms(1,2)]
  by (simp add: deleteSelectedIssue_def try_catch_def bind_def lift_def ret_def question_def)

lemma deleteSelectedIssue_confirmed:
  assumes "selectIssueFromProject tr w = (Return selectedIssue, w1)" and "truthy selectedIssue"
    and "stdin w1 = confirmation # rest" and "toLowerCase confirmation = ''yes''"
  shows "deleteSelectedIssue tr w =
    (Return (), snd (deleteIssue tr (get selectedIssue ''key'') (w1\<lparr>stdin := rest\<rparr>)))"
proof -
  have si: "show_issue selectedIssue = Return ()"
    using assms(1,2) by (rule selected_issue_rendered)
  then have ik: "interpolate (get selectedIssue ''key'') = Return ()"
    by (simp add: show_issue_iff printable_def)
  obtain r w3 where r: "deleteIssue tr (get selectedIssue ''key'') (w1\<lparr>stdin := rest\<rparr>) =
      (r, w3)"
    by (cases "deleteIssue tr (get selectedIssue ''key'') (w1\<lparr>stdin := rest\<rparr>)")
  have nh: "r \<noteq> Hang"
    using deleteIssue_not_Hang [of tr "get selectedIssue ''key''" "w1\<lparr>stdin := rest\<rparr>"] r
    by simp
  have "deleteSelectedIssue tr w = (Return (), w3)"
  proof (cases r)
    case (Return res)
    then show ?thesis
      using assms si ik r
      by (cases res)
         (simp_all add: deleteSelectedIssue_def try_catch_def bind_def lift_def ret_def
            question_def)
  next
    case (Throw ex)
    then show ?thesis
      using assms si ik r
      by (simp add: deleteSelectedIssue_def try_catch_def bind_def lift_def ret_def
          question_def)
  next
    case Hang
    then show ?thesis
      using nh by simp
  qed
  then show ?thesis
    using r by simp
qed

text \<open>
  C4. In the delete flow, once an issue is selected, the line typed at the confirmation
  prompt decides: when its lower-case form is not \<open>yes\<close>, the flow ends in the state
  left by the selection and the prompt, so \<open>deleteIssue\<close> is not run and no request is
  made; when it is \<open>yes\<close>, the flow ends in the state that one run of \<open>deleteIssue\<close> on
  the key of the selected issue leaves, which for a key that is a string and not empty
  adds exactly one DELETE request for that issue. The lines whose lower-case form is
  \<open>yes\<close> are the eight spellings of \<open>yes\<close> in small and capital letters.
\<close>

theorem deleteSelectedIssue_confirmation:
  assumes "selectIssueFromProject tr w = (Return selectedIssue, w1)" and "truthy selectedIssue"
    and "stdin w1 = confirmation # rest"
  shows "(toLowerCase confirmation \<noteq> ''yes'' \<longrightarrow>
            deleteSelectedIssue tr w = (Return (), w1\<lparr>stdin := rest\<rparr>))
       \<and> (toLowerCase confirmation = ''yes'' \<longrightarrow>
            deleteSelectedIssue tr w =
              (Return (),
               snd (deleteIssue tr (get selectedIssue ''key'') (w1\<lparr>stdin := rest\<rparr>))))
       \<and> (toLowerCase confirmation = ''yes'' \<and> get selectedIssue ''key'' = JStr key
            \<and> key \<noteq> [] \<longrightarrow>
            calls (snd (deleteSelectedIssue tr w)) = calls w1 @
              [\<lparr>url = str (baseURL w1) @ str ''/rest/api/3/issue/'' @ key,
                http_method = JStr (str ''DELETE''),
                username = str (email w1), password = str (apiToken w1),
                headers = [(''Accept'', ''application/json'')], data = JUndefined\<rparr>])
       \<and> (toLowerCase confirmation = ''yes'' \<longleftrightarrow>
            confirmation \<in> {''yes'', ''yeS'', ''yEs'', ''yES'', ''Yes'', ''YeS'', ''YEs'', ''YES''})"
  using deleteSelectedIssue_declined [OF assms] deleteSelectedIssue_confirmed [OF assms]
    deleteIssue_request [of key tr "w1\<lparr>stdin := rest\<rparr>"] toLowerCase_yes [of confirmation]
  by auto

theorem deleteSelectedIssue_confirmation_witness:
  "calls (snd (deleteSelectedIssue example_jira (initial [''1'', ''1'', ''YES''])))
     = example_listing @
       [\<lparr>url = str ''/rest/api/3/issue/'' @ str ''BTS-1'', http_method = JStr (str ''DELETE''),
         username = [], password = [],
         headers = [(''Accept'', ''application/json'')], data = JUndefined\<rparr>]
   \<and> deleteSelectedIssue example_jira (initial [''1'', ''1'', ''YES please''])
     = (Return (), (initial [])\<lparr>calls := example_listing\<rparr>)"
proof -
  have sel: "selectIssueFromProject example_jira (initial [''1'', ''1'', ''YES'']) =
      (Return (example_issues ! 0), (initial [''YES''])\<lparr>calls := example_listing\<rparr>)"
    by (rule example_selectIssueFromProject)
  have sel': "selectIssueFromProject example_jira (initial [''1'', ''1'', ''YES please'']) =
      (Return (example_issues ! 0), (initial [''YES please''])\<lparr>calls := example_listing\<rparr>)"
    by (rule example_selectIssueFromProject)
  have t: "truthy (example_issues ! 0)"
    by (simp add: example_issues_def)
  have k: "get (example_issues ! 0) ''key'' = JStr (str ''BTS-1'')"
    by (simp add: example_issues_def)
  have y: "toLowerCase ''YES'' = ''yes''" "toLowerCase ''YES please'' \<noteq> ''yes''"
    by (simp_all add: toLowerCase_yes)
  show ?thesis
    using deleteSelectedIssue_confirmation [OF sel t, of "''YES''" "[]" "str ''BTS-1''"]
      deleteSelectedIssue_confirmation [OF sel' t, of "''YES please''" "[]"]
    by (simp add: y k initial_def deleteIssue_request)
qed

subsection \<open>The numbered selection step\<close>

text \<open>
  C3, as the specification words it, fails: the line \<open>2abc\<close> is not a number, yet with
  three projects listed \<open>selectProject\<close> returns the second project instead of the
  invalid choice \<^verbatim>\<open>null\<close>, because \<open>parseInt\<close> reads the leading \<open>2\<close> and ignores the rest.
\<close>

theorem numeric_counterexample:
  "\<not> numeric ''2abc''
   \<and> fst (selectProject example_jira (initial [''2abc''])) = Return (example_projects ! 1)
   \<and> example_projects ! 1 \<noteq> JNull"
proof -
  have 1: "\<not> numeric ''2abc''"
    by (simp add: numeric_def is_digit_def digit_value_def)
  have n: "length example_projects = 3"
    by (simp add: example_projects_def)
  have 2: "selectProject example_jira (initial [''2abc'']) =
        (Return (example_projects ! 1), (initial [])\<lparr>calls := [hd example_listing]\<rparr>)"
    unfolding example_selectProject by (simp add: n example_choices)
  show ?thesis
    using 1 2 by (simp add: example_projects_def)
qed

text \<open>
  C3, amended. A list is rendered when the template of each of its lines evaluates: each
  project is neither \<^verbatim>\<open>null\<close> nor \<^verbatim>\<open>undefined\<close> and its key and name convert to strings;
  each issue and its \<^verbatim>\<open>fields\<close> are neither \<^verbatim>\<open>null\<close> nor \<^verbatim>\<open>undefined\<close> and its key and
  summary convert to strings; the heading of the issue list also converts the project
  key. With a rendered list of \<open>n\<close> items and a typed line, \<open>selectProject\<close> and
  \<open>selectIssueFromList\<close> return the item at the index that \<open>parseInt\<close> of the line, less
  one, gives when that is from 0 to \<open>n - 1\<close>, and \<^verbatim>\<open>null\<close> otherwise. So the numerals of
  1 to \<open>n\<close> select the indices 0 to \<open>n - 1\<close>, the numerals of 0 and of numbers above \<open>n\<close>
  select nothing, and a line from which \<open>parseInt\<close> reads no number selects nothing. When
  a line of the project list does not render, \<open>selectProject\<close> returns \<^verbatim>\<open>null\<close> and reads
  no line; when the project key does not convert, \<open>selectIssueFromList\<close> throws and reads
  no line. When the project selection returns nothing, \<open>selectIssueFromProject\<close> and
  \<open>createNewIssue\<close> end in the state the selection left; when the issue selection returns
  nothing, so does \<open>selectIssueFromProject\<close>, in the same state, and then
  \<open>selectAndDisplayIssue\<close> and \<open>deleteSelectedIssue\<close> end in that state: no request
  follows an invalid choice.
\<close>

theorem numbered_selection:
  "(tr (calls w) (request_config w (str ''/project'') no_options) = Inr (JArr ps) \<and> ps \<noteq> []
      \<and> (\<forall>p \<in> set ps. show_project p = Return ()) \<and> stdin w = line # rest \<longrightarrow>
      selectProject tr w =
        (Return (case chosen_index line (length ps) of None \<Rightarrow> JNull | Some i \<Rightarrow> ps ! i),
         w\<lparr>calls := calls w @ [request_config w (str ''/project'') no_options],
           stdin := rest\<rparr>))
   \<and> (tr (calls w) (request_config w (str ''/project'') no_options) = Inr (JArr ps) \<and> ps \<noteq> []
      \<and> forEach ps show_project = Throw ex \<longrightarrow>
      selectProject tr w =
        (Return JNull,
         w\<lparr>calls := calls w @ [request_config w (str ''/project'') no_options]\<rparr>))
   \<and> (xs \<noteq> [] \<and> printable projectKey \<and> (\<forall>x \<in> set xs. show_issue x = Return ())
      \<and> stdin w = line # rest \<longrightarrow>
      selectIssueFromList (JArr xs) projectKey w =
        (Return (case chosen_index line (length xs) of None \<Rightarrow> JNull | Some i \<Rightarrow> xs ! i),
         w\<lparr>stdin := rest\<rparr>))
   \<and> (interpolate projectKey = Throw ex \<longrightarrow>
      selectIssueFromList (JArr xs) projectKey w = (Throw ex, w))
   \<and> (show_project project = Return () \<longleftrightarrow>
        \<not> nullish project \<and> printable (get project ''key'')
        \<and> printable (get project ''name''))
   \<and> (show_issue issue = Return () \<longleftrightarrow>
        \<not> nullish issue \<and> printable (get issue ''key'') \<and> \<not> nullish (get issue ''fields'')
        \<and> printable (get (get issue ''fields'') ''summary''))
   \<and> chosen_index (show_nat k) n = (if 1 \<le> k \<and> k \<le> n then Some (k - 1) else None)
   \<and> (parseInt line = None \<longrightarrow> chosen_index line n = None)
   \<and> (chosen_index line n = Some i \<longrightarrow> i < n)
   \<and> (selectProject tr w = (Return v, w') \<and> \<not> truthy v \<longrightarrow>
        selectIssueFromProject tr w = (Return JNull, w')
        \<and> createNewIssue tr w = (Return (), w'))
   \<and> (selectIssueFromProject tr w = (Return v, w') \<and> \<not> truthy v \<longrightarrow>
        selectAndDisplayIssue tr w = (Return (), w')
        \<and> deleteSelectedIssue tr w = (Return (), w'))
   \<and> (selectProject tr w = (Return p, w1) \<and> truthy p
        \<and> getIssuesList tr (get p ''key'') JUndefined w1 = (Return (Success d), w2)
        \<and> \<not> nullish d
        \<and> selectIssueFromList (get d ''issues'') (get p ''key'') w2 = (Return v, w3) \<longrightarrow>
        selectIssueFromProject tr w = (Return v, w3))"
  using selectProject_listed [of tr w ps line rest]
    selectProject_not_rendered [of tr w ps ex]
    selectIssueFromList_listed [of xs projectKey w line rest]
    selectIssueFromList_key_not_printable [of projectKey ex xs w]
    show_project_iff [of project] show_issue_iff [of issue]
    chosen_index_show_nat [of k n] chosen_index_range [of line n i]
    selectProject_aborts [of tr w v w'] selectIssueFromProject_aborts [of tr w v w']
    selectIssueFromProject_ends_with_list [of tr w p w1 d w2 v w3]
  by (simp add: chosen_index_def)

theorem numbered_selection_witness:
  "fst (selectProject example_jira (initial [''1''])) = Return (example_projects ! 0)
   \<and> fst (selectProject example_jira (initial [''2''])) = Return (example_projects ! 1)
   \<and> fst (selectProject example_jira (initial [''3''])) = Return (example_projects ! 2)
   \<and> selectProject example_jira (initial [''0'']) =
       (Return JNull, (initial [])\<lparr>calls := [hd example_listing]\<rparr>)
   \<and> selectProject example_jira (initial [''4'']) =
       (Return JNull, (initial [])\<lparr>calls := [hd example_listing]\<rparr>)
   \<and> selectProject example_jira (initial [''abc'']) =
       (Return JNull, (initial [])\<lparr>calls := [hd example_listing]\<rparr>)
   \<and> selectProject example_jira (initial [[]]) =
       (Return JNull, (initial [])\<lparr>calls := [hd example_listing]\<rparr>)"
proof -
  have h: "example_jira (calls (initial [line]))
      (request_config (initial [line]) (str ''/project'') no_options)
        = Inr (JArr example_projects)
     \<and> example_projects \<noteq> [] \<and> (\<forall>p \<in> set example_projects. show_project p = Return ())
     \<and> stdin (initial [line]) = line # []" for line
    using example_projects_request [of "[line]"] example_projects_rendered
    by (simp add: initial_def example_projects_def)
  have n: "length example_projects = 3"
    by (simp add: example_projects_def)
  have u: "str ''/rest/api/3'' @ str ''/project'' = str ''/rest/api/3/project''"
    by (simp add: str_def)
  have "selectProject example_jira (initial [line]) =
        (Return (case chosen_index line (length example_projects) of
                   None \<Rightarrow> JNull | Some i \<Rightarrow> example_projects ! i),
         (initial [])\<lparr>calls := [hd example_listing]\<rparr>)" for line
    using numbered_selection
      [of example_jira "initial [line]" example_projects line "[]", THEN conjunct1,
       THEN mp, OF h [of line]]
    by (simp add: request_config_get initial_def example_listing_def u)
  then show ?thesis
    by (simp add: n example_choices)
qed

end
